theory Spec2Isabelle
  imports Main "HOL-Library.Sublist"
begin

section \<open>Cursor pagination: \<open>paginateCursor\<close>\<close>

text \<open>
  The generic paginator of the client library. A page is either a list of items with an
  optional cursor, or a failure carrying an error string (the union type \<open>CursorPage\<close>).
\<close>

datatype 'a CursorPage =
    PageOk "'a list" "string option"
  | PageFail string

text \<open>
  \<open>CursorPaginationResult\<close>: on success the items and an optional next cursor; on failure
  the error, and optionally the partial items and the cursor.
\<close>

datatype 'a CursorPaginationResult =
    ResultOk "'a list" "string option"
  | ResultFail string "'a list option" "string option"

text \<open>
  The two effects of the paginator are calls of the caller's closures \<open>sleep\<close> and
  \<open>fetchPage\<close>. Both act on a world \<open>'w\<close> that is threaded through the run. Each call is
  also recorded, in order, in a log of events, so that theorems can speak about the
  fetches a run has made. The paginator has no \<open>try\<close>: a closure that threw would end
  the call with that throw. A failing fetch is a page with \<open>success: false\<close>, and the
  closures are taken to return.
\<close>

datatype 'a event =
    Slept int
  | Fetched "string option" "'a CursorPage"

record ('a, 'w) paginate_opts =
  opt_cursor :: "string option"
  opt_maxPages :: "int option"
  opt_pageDelayMs :: "int option"
  opt_sleep :: "int \<Rightarrow> 'w \<Rightarrow> 'w"
  opt_getKey :: "'a \<Rightarrow> string"
  opt_fetchPage :: "string option \<Rightarrow> 'w \<Rightarrow> 'a CursorPage \<times> 'w"

text \<open>The local variables of the function, with the world and the event log.\<close>

record ('a, 'w) loop_state =
  seen :: "string set"
  items :: "'a list"
  cursor :: "string option"
  pagesFetched :: nat
  world :: 'w
  events :: "'a event list"

record ('a, 'w) run =
  result :: "'a CursorPaginationResult"
  final_world :: 'w
  run_events :: "'a event list"

text \<open>\<open>const { maxPages, pageDelayMs = 1000 } = opts\<close>\<close>

definition pageDelayMs :: "('a, 'w) paginate_opts \<Rightarrow> int" where
  "pageDelayMs opts = (case opt_pageDelayMs opts of None \<Rightarrow> 1000 | Some d \<Rightarrow> d)"

text \<open>
  The inner \<open>for\<close> loop over the items of one page: an item whose key has been seen is
  skipped, any other has its key added to \<open>seen\<close> and is pushed at the end of \<open>items\<close>.
\<close>

fun add_items :: "('a \<Rightarrow> string) \<Rightarrow> 'a list \<Rightarrow> string set \<times> 'a list \<Rightarrow> string set \<times> 'a list" where
  "add_items getKey [] (sn, its) = (sn, its)"
| "add_items getKey (item # rest) (sn, its) =
     (let key = getKey item in
      if key \<in> sn then add_items getKey rest (sn, its)
      else add_items getKey rest (insert key sn, its @ [item]))"

text \<open>\<open>!pageCursor\<close>: the cursor is \<open>undefined\<close> or the empty string.\<close>

definition cursor_absent :: "string option \<Rightarrow> bool" where
  "cursor_absent pc = (case pc of None \<Rightarrow> True | Some c \<Rightarrow> c = [])"

text \<open>\<open>maxPages !== undefined && pagesFetched >= maxPages\<close>\<close>

definition limit_reached :: "int option \<Rightarrow> nat \<Rightarrow> bool" where
  "limit_reached maxPages n = (case maxPages of None \<Rightarrow> False | Some m \<Rightarrow> m \<le> int n)"

text \<open>
  One iteration of \<open>while (true)\<close>: either the function returns (\<open>Inl\<close>), or the loop goes
  on with an updated state (\<open>Inr\<close>).
\<close>

definition loop_body ::
  "('a, 'w) paginate_opts \<Rightarrow> ('a, 'w) loop_state \<Rightarrow> ('a, 'w) run + ('a, 'w) loop_state" where
  "loop_body opts st =
     (let delay = pageDelayMs opts;
          sleeps = (0 < pagesFetched st \<and> 0 < delay);
          w1 = (if sleeps then opt_sleep opts delay (world st) else world st);
          ev1 = (if sleeps then events st @ [Slept delay] else events st);
          (page, w2) = opt_fetchPage opts (cursor st) w1;
          ev2 = ev1 @ [Fetched (cursor st) page]
      in case page of
           PageFail err \<Rightarrow>
             Inl \<lparr>result = (if items st \<noteq> []
                            then ResultFail err (Some (items st)) (cursor st)
                            else ResultFail err None None),
                  final_world = w2, run_events = ev2\<rparr>
         | PageOk page_items pageCursor \<Rightarrow>
             (let n = pagesFetched st + 1;
                  (sn, its) = add_items (opt_getKey opts) page_items (seen st, items st)
              in if cursor_absent pageCursor \<or> pageCursor = cursor st
                 then Inl \<lparr>result = ResultOk its None, final_world = w2, run_events = ev2\<rparr>
                 else if limit_reached (opt_maxPages opts) n
                 then Inl \<lparr>result = ResultOk its pageCursor, final_world = w2, run_events = ev2\<rparr>
                 else Inr \<lparr>seen = sn, items = its, cursor = pageCursor, pagesFetched = n,
                           world = w2, events = ev2\<rparr>))"

text \<open>
  The loop has no bound of its own: a server that keeps sending fresh cursors keeps it
  running when no page limit is given. A run that does not return is the value \<open>None\<close>.
\<close>

partial_function (option) paginate_loop ::
  "('a, 'w) paginate_opts \<Rightarrow> ('a, 'w) loop_state \<Rightarrow> ('a, 'w) run option" where
  "paginate_loop opts st =
     (case loop_body opts st of
        Inl r \<Rightarrow> Some r
      | Inr st' \<Rightarrow> paginate_loop opts st')"

definition initial_state :: "('a, 'w) paginate_opts \<Rightarrow> 'w \<Rightarrow> ('a, 'w) loop_state" where
  "initial_state opts w =
     \<lparr>seen = {}, items = [], cursor = opt_cursor opts, pagesFetched = 0, world = w, events = []\<rparr>"

definition paginateCursor :: "('a, 'w) paginate_opts \<Rightarrow> 'w \<Rightarrow> ('a, 'w) run option" where
  "paginateCursor opts w = paginate_loop opts (initial_state opts w)"

subsection \<open>What a run has fetched\<close>

text \<open>
  Read from the event log of a run: the items of the pages fetched with success, in the
  order in which the paginator met them, and the number of calls of \<open>fetchPage\<close>.
\<close>

fun event_items :: "'a event \<Rightarrow> 'a list" where
  "event_items (Fetched c (PageOk page_items pc)) = page_items"
| "event_items (Fetched c (PageFail e)) = []"
| "event_items (Slept ms) = []"

definition encountered :: "'a event list \<Rightarrow> 'a list" where
  "encountered evs = concat (map event_items evs)"

fun is_fetch :: "'a event \<Rightarrow> bool" where
  "is_fetch (Fetched c p) = True"
| "is_fetch (Slept ms) = False"

definition fetch_count :: "'a event list \<Rightarrow> nat" where
  "fetch_count evs = length (filter is_fetch evs)"

text \<open>The items and the next cursor a result carries.\<close>

fun returned_items :: "'a CursorPaginationResult \<Rightarrow> 'a list option" where
  "returned_items (ResultOk its nc) = Some its"
| "returned_items (ResultFail e its nc) = its"

fun nextCursor :: "'a CursorPaginationResult \<Rightarrow> string option" where
  "nextCursor (ResultOk its nc) = nc"
| "nextCursor (ResultFail e its nc) = nc"

fun success :: "'a CursorPaginationResult \<Rightarrow> bool" where
  "success (ResultOk its nc) = True"
| "success (ResultFail e its nc) = False"

text \<open>
  First-encounter order, as the specification words it, for a list of items in the order
  of their encounter: the first item keeps its place, every later item with its key is
  left out, and so on for the items that remain. (Lemma \<open>first_occurrences_positions\<close>
  below says the same by positions: the item at a position is kept exactly when no
  earlier position holds its key.)
\<close>

fun first_occurrences :: "('a \<Rightarrow> string) \<Rightarrow> 'a list \<Rightarrow> 'a list" where
  "first_occurrences k [] = []"
| "first_occurrences k (x # xs) = x # first_occurrences k (filter (\<lambda>y. k y \<noteq> k x) xs)"


subsection \<open>Auxiliary notions for the proofs\<close>

text \<open>
  Names for parts of one iteration: whether it sleeps first, the world in which the page
  is fetched, and the event log once the page has been fetched.
\<close>

definition slept :: "('a, 'w) paginate_opts \<Rightarrow> ('a, 'w) loop_state \<Rightarrow> bool" where
  "slept opts st \<longleftrightarrow> 0 < pagesFetched st \<and> 0 < pageDelayMs opts"

definition world_before_fetch :: "('a, 'w) paginate_opts \<Rightarrow> ('a, 'w) loop_state \<Rightarrow> 'w" where
  "world_before_fetch opts st =
     (if slept opts st then opt_sleep opts (pageDelayMs opts) (world st) else world st)"

definition events_with_fetch ::
  "('a, 'w) paginate_opts \<Rightarrow> ('a, 'w) loop_state \<Rightarrow> 'a CursorPage \<Rightarrow> 'a event list" where
  "events_with_fetch opts st page =
     (if slept opts st then events st @ [Slept (pageDelayMs opts)] else events st)
     @ [Fetched (cursor st) page]"

text \<open>
  The invariant of the loop on \<open>seen\<close> and \<open>items\<close>: \<open>seen\<close> is the set of the keys of
  \<open>items\<close>, and \<open>items\<close> is the first occurrences among the items of the pages fetched so
  far.
\<close>

definition items_inv :: "('a, 'w) paginate_opts \<Rightarrow> ('a, 'w) loop_state \<Rightarrow> bool" where
  "items_inv opts st \<longleftrightarrow>
     seen st = opt_getKey opts ` set (items st) \<and>
     items st = first_occurrences (opt_getKey opts) (encountered (events st))"

text \<open>
  The state of the loop of \<open>paginateCursor opts\<close>, started in the world \<open>w\<close>, when it comes
  to its iteration number \<open>n\<close> (counted from 0), if it comes that far: the state in which
  page \<open>n + 1\<close> is about to be fetched.
\<close>

fun state_after :: "nat \<Rightarrow> ('a, 'w) paginate_opts \<Rightarrow> 'w \<Rightarrow> ('a, 'w) loop_state option" where
  "state_after 0 opts w = Some (initial_state opts w)"
| "state_after (Suc n) opts w =
     (case state_after n opts w of
        None \<Rightarrow> None
      | Some st \<Rightarrow> (case loop_body opts st of Inl r \<Rightarrow> None | Inr st' \<Rightarrow> Some st'))"

text \<open>
  The invariant of the loop on \<open>pagesFetched\<close>: it counts the fetches made so far, and
  once a page has been fetched the loop only goes on while the page limit is not reached.
\<close>

definition count_inv :: "('a, 'w) paginate_opts \<Rightarrow> ('a, 'w) loop_state \<Rightarrow> bool" where
  "count_inv opts st \<longleftrightarrow>
     fetch_count (events st) = pagesFetched st \<and>
     (0 < pagesFetched st \<longrightarrow> \<not> limit_reached (opt_maxPages opts) (pagesFetched st))"

text \<open>How a run that has returned came to stop, read from its last event.\<close>

definition stop_reason :: "('a, 'w) paginate_opts \<Rightarrow> ('a, 'w) run \<Rightarrow> bool" where
  "stop_reason opts r \<longleftrightarrow>
     run_events r \<noteq> [] \<and>
     (case last (run_events r) of
        Slept ms \<Rightarrow> False
      | Fetched c (PageFail e) \<Rightarrow>
          \<not> success (result r)
      | Fetched c (PageOk xs pc) \<Rightarrow>
          success (result r) \<and>
          (if cursor_absent pc \<or> pc = c then nextCursor (result r) = None
           else nextCursor (result r) = pc \<and>
                limit_reached (opt_maxPages opts) (fetch_count (run_events r))))"

subsection \<open>Scripted servers\<close>

text \<open>
  Concrete servers for running the paginator, after the mocked responses of the test
  suite: a tweet is an id with a text, its key is the id, a server answers by cursor, and
  sleeping does nothing.
\<close>

type_synonym tweet = "string \<times> string"

definition scripted_opts ::
  "(string option \<Rightarrow> tweet CursorPage) \<Rightarrow> int option \<Rightarrow> (tweet, unit) paginate_opts" where
  "scripted_opts pages maxPages =
     \<lparr>opt_cursor = None, opt_maxPages = maxPages, opt_pageDelayMs = None,
      opt_sleep = (\<lambda>ms w. w), opt_getKey = fst, opt_fetchPage = (\<lambda>c w. (pages c, w))\<rparr>"

definition limit_pages :: "string option \<Rightarrow> tweet CursorPage" where
  "limit_pages c =
     (if c = None then PageOk [(''tweet1'', ''Page 1'')] (Some ''cursor-page-2'')
      else if c = Some ''cursor-page-2'' then PageOk [(''tweet2'', ''Page 2'')] (Some ''cursor-page-3'')
      else if c = Some ''cursor-page-3'' then PageOk [(''tweet3'', ''Page 3'')] None
      else PageFail ''unexpected cursor'')"

definition failing_pages :: "string option \<Rightarrow> tweet CursorPage" where
  "failing_pages c =
     (if c = None then PageOk [(''tweet1'', ''Page 1'')] (Some ''cursor-page-2'')
      else PageFail ''HTTP 500: Internal Server Error'')"


text \<open>
  A server for scenario B: the tweet \<open>dup\<close> with cursor \<open>p2\<close>, then \<open>dup\<close> again with the
  fresh cursor \<open>p3\<close>, then one more page with a new tweet and no cursor.
\<close>

definition scenarioB_pages :: "string option \<Rightarrow> tweet CursorPage" where
  "scenarioB_pages c =
     (if c = None then PageOk [(''dup'', ''Duplicate'')] (Some ''p2'')
      else if c = Some ''p2'' then PageOk [(''dup'', ''Duplicate'')] (Some ''p3'')
      else if c = Some ''p3'' then PageOk [(''fresh'', ''Fresh'')] None
      else PageFail ''unexpected cursor'')"

text \<open>The runs these servers are expected to give.\<close>

definition limit_expected :: "(tweet, unit) run" where
  "limit_expected =
     \<lparr>result = ResultOk [(''tweet1'', ''Page 1''), (''tweet2'', ''Page 2'')] (Some ''cursor-page-3''),
      final_world = (),
      run_events = [Fetched None (limit_pages None), Slept 1000,
                    Fetched (Some ''cursor-page-2'') (limit_pages (Some ''cursor-page-2''))]\<rparr>"

definition failing_expected :: "(tweet, unit) run" where
  "failing_expected =
     \<lparr>result = ResultFail ''HTTP 500: Internal Server Error'' (Some [(''tweet1'', ''Page 1'')])
                 (Some ''cursor-page-2''),
      final_world = (),
      run_events = [Fetched None (failing_pages None), Slept 1000,
                    Fetched (Some ''cursor-page-2'') (failing_pages (Some ''cursor-page-2''))]\<rparr>"

definition failing_at_once_expected :: "(tweet, unit) run" where
  "failing_at_once_expected =
     \<lparr>result = ResultFail ''HTTP 403: Forbidden'' None None,
      final_world = (),
      run_events = [Fetched None (PageFail ''HTTP 403: Forbidden'')]\<rparr>"

definition scenarioB_expected :: "(tweet, unit) run" where
  "scenarioB_expected =
     \<lparr>result = ResultOk [(''dup'', ''Duplicate''), (''fresh'', ''Fresh'')] None,
      final_world = (),
      run_events = [Fetched None (scenarioB_pages None), Slept 1000,
                    Fetched (Some ''p2'') (scenarioB_pages (Some ''p2'')), Slept 1000,
                    Fetched (Some ''p3'') (scenarioB_pages (Some ''p3''))]\<rparr>"

definition scenarioB_limited_expected :: "(tweet, unit) run" where
  "scenarioB_limited_expected =
     \<lparr>result = ResultOk [(''dup'', ''Duplicate'')] (Some ''p3''),
      final_world = (),
      run_events = [Fetched None (scenarioB_pages None), Slept 1000,
                    Fetched (Some ''p2'') (scenarioB_pages (Some ''p2''))]\<rparr>"

text \<open>
  A server that serves items again: the second page repeats the first tweet as it was,
  brings the second tweet with a changed text, and adds a third.
\<close>

definition reserved_pages :: "string option \<Rightarrow> tweet CursorPage" where
  "reserved_pages c =
     (if c = None then PageOk [(''a'', ''first''), (''b'', ''second'')] (Some ''p2'')
      else if c = Some ''p2'' then
        PageOk [(''a'', ''first''), (''b'', ''changed''), (''c'', ''third'')] None
      else PageFail ''unexpected cursor'')"

definition reserved_expected :: "(tweet, unit) run" where
  "reserved_expected =
     \<lparr>result = ResultOk [(''a'', ''first''), (''b'', ''second''), (''c'', ''third'')] None,
      final_world = (),
      run_events = [Fetched None (reserved_pages None), Slept 1000,
                    Fetched (Some ''p2'') (reserved_pages (Some ''p2''))]\<rparr>"

text \<open>The three-page server with the page limits 3 and 0.\<close>

definition limit3_expected :: "(tweet, unit) run" where
  "limit3_expected =
     \<lparr>result = ResultOk [(''tweet1'', ''Page 1''), (''tweet2'', ''Page 2''), (''tweet3'', ''Page 3'')] None,
      final_world = (),
      run_events = [Fetched None (limit_pages None), Slept 1000,
                    Fetched (Some ''cursor-page-2'') (limit_pages (Some ''cursor-page-2'')),
                    Slept 1000,
                    Fetched (Some ''cursor-page-3'') (limit_pages (Some ''cursor-page-3''))]\<rparr>"




definition failing_state :: "(tweet, unit) loop_state" where
  "failing_state =
     \<lparr>seen = {''tweet1''}, items = [(''tweet1'', ''Page 1'')], cursor = Some ''cursor-page-2'',
      pagesFetched = 1, world = (), events = [Fetched None (failing_pages None)]\<rparr>"

definition forbidden_pages :: "string option \<Rightarrow> tweet CursorPage" where
  "forbidden_pages c = PageFail ''HTTP 403: Forbidden''"




section \<open>The client: errors, requests and responses\<close>

text \<open>
  A value thrown by JavaScript code (or the reason of a rejected promise) is either an
  \<open>Error\<close> object with its message or some other value, kept as what \<open>String(...)\<close> gives
  for it. A computation that may throw returns \<open>js_error + 'a\<close>, with \<open>Inl\<close> for the throw.
\<close>

datatype js_error = Error string | Thrown string

text \<open>\<open>error instanceof Error ? error.message : String(error)\<close>\<close>

fun error_text :: "js_error \<Rightarrow> string" where
  "error_text (Error m) = m"
| "error_text (Thrown v) = v"

text \<open>
  The decimal digits of a natural number, as a template literal prints the status of a
  response.
\<close>

definition digit_char :: "nat \<Rightarrow> char" where
  "digit_char d = ''0123456789'' ! d"

function show_nat :: "nat \<Rightarrow> string" where
  "show_nat n = (if n < 10 then [digit_char n] else show_nat (n div 10) @ [digit_char (n mod 10)])"
  by pat_completeness auto
termination
  by (relation "measure id") auto

declare show_nat.simps [simp del]

text \<open>\<open>Array.prototype.join\<close> on strings.\<close>

fun join :: "string \<Rightarrow> string list \<Rightarrow> string" where
  "join sep [] = []"
| "join sep [x] = x"
| "join sep (x # y # ys) = x @ sep @ join sep (y # ys)"

text \<open>
  A number of a JSON body is kept as the text that \<open>String(...)\<close> and a template literal
  give for it, so the number 226 is the text \<open>226\<close>. No other number has that text, so a
  number is \<open>=== 226\<close> exactly when its text is \<open>226\<close>.
\<close>

type_synonym json_number = string

text \<open>
  An entry of the \<open>errors\<close> array of a response body: its message and, when
  \<open>typeof code\<close> is \<open>number\<close>, its code.
\<close>

record api_error =
  err_message :: string
  err_code :: "json_number option"

text \<open>
  A JSON object as a response body, by the fields the client reads: the \<open>errors\<close> array,
  the three places where a created tweet's id may stand
  (\<open>data.create_tweet.tweet_results.result.rest_id\<close>, \<open>...result.tweet.rest_id\<close>,
  \<open>...result.legacy.id_str\<close>), and \<open>id_str\<close> and \<open>id\<close> of the legacy endpoint. The fields
  are taken at the types that the code declares for them: \<open>errors\<close> an array of objects
  with a string \<open>message\<close>, the ids strings. A field that is absent is \<open>None\<close>, and so is
  \<open>id_str\<close> when it is not a string. Of \<open>id\<close>, which the code turns into a string whatever
  it is, the field holds the text that \<open>String(data.id)\<close> gives, when \<open>id\<close> is not
  \<open>undefined\<close>. The rest of the body (the timeline instructions) is kept as it is in
  \<open>body_rest\<close>.
\<close>

record 'j json_body =
  body_errors :: "api_error list option"
  body_rest_id :: "string option"
  body_tweet_rest_id :: "string option"
  body_legacy_id_str :: "string option"
  body_id_str :: "string option"
  body_id :: "string option"
  body_rest :: 'j

text \<open>
  What \<open>await response.json()\<close> gives: \<open>null\<close> or an object. (A body that is a number, a
  string, a boolean or an array has none of the fields above, and reading them gives
  \<open>undefined\<close> as for the object without fields.) Reading a property of \<open>null\<close> throws a
  \<open>TypeError\<close>, here with the message of V8.
\<close>

datatype 'j json_value = JsonNull | JsonObject "'j json_body"

definition null_property_error :: "string \<Rightarrow> js_error" where
  "null_property_error field =
     Error (''Cannot read properties of null (reading '' @ [CHR 0x27] @ field @ [CHR 0x27] @ '')'')"

text \<open>
  A response of \<open>fetch\<close>: \<open>ok\<close>, \<open>status\<close>, and the results of \<open>await response.text()\<close> and
  \<open>await response.json()\<close>, each of which may reject.
\<close>

record 'j response =
  resp_ok :: bool
  resp_status :: nat
  resp_text :: "js_error + string"
  resp_json :: "js_error + 'j json_value"

text \<open>
  The variables of a \<open>CreateTweet\<close> call, as \<open>tweet\<close> and \<open>reply\<close> build them: the text, the
  tweet replied to (the key \<open>reply\<close> is present exactly when this is \<open>Some\<close>), and the media
  ids.
\<close>

record create_variables =
  tweet_text :: string
  in_reply_to_tweet_id :: "string option"
  media_ids :: "string list"

text \<open>
  The body of a request: \<open>JSON.stringify({ variables, features, queryId })\<close> of the
  create-tweet call (the feature flags are a constant and left out),
  \<open>JSON.stringify({ variables: { tweet_id }, queryId })\<close> of an engagement mutation, the
  form parameters of the legacy endpoint, or none.
\<close>

datatype request_body =
    CreateTweetBody create_variables string
  | EngagementBody string string
  | FormBody "(string \<times> string) list"
  | NoBody

text \<open>
  A request: URL, method, the \<open>referer\<close> header, the body, and the timeout after which the
  abort signal fires, when the client has one. The other headers (bearer token, CSRF
  token, cookies, per-request transaction id) play no part in what follows and are left
  out.
\<close>

record request =
  req_url :: string
  req_method :: string
  req_referer :: string
  req_body :: request_body
  req_timeout :: "int option"

subsection \<open>The client object\<close>

record cookies =
  cookie_authToken :: "string option"
  cookie_ct0 :: "string option"
  cookie_cookieHeader :: "string option"

record client_options =
  opt_cookies :: cookies
  opt_userAgent :: "string option"
  opt_timeoutMs :: "int option"
  opt_quoteDepth :: "int option"

record client =
  authToken :: string
  ct0 :: string
  cookieHeader :: string
  userAgent :: string
  timeoutMs :: "int option"
  quoteDepth :: int
  clientUuid :: string
  clientDeviceId :: string
  clientUserId :: "string option"

text \<open>A string that JavaScript takes for false: \<open>undefined\<close>, \<open>null\<close> or empty.\<close>

definition falsy :: "string option \<Rightarrow> bool" where
  "falsy v = (case v of None \<Rightarrow> True | Some s \<Rightarrow> s = [])"

text \<open>\<open>a || b\<close> on an optional string.\<close>

definition or_else :: "string option \<Rightarrow> string \<Rightarrow> string" where
  "or_else v d = (case v of None \<Rightarrow> d | Some s \<Rightarrow> if s = [] then d else s)"

definition default_userAgent :: string where
  "default_userAgent =
     ''Mozilla/5.0 (Macintosh; Intel Mac OS X 10_15_7) AppleWebKit/537.36 (KHTML, like Gecko) Chrome/131.0.0.0 Safari/537.36''"

text \<open>
  The constructor of \<open>TwitterClientBase\<close>. It throws when a cookie is missing. The two
  calls of \<open>randomUUID()\<close> are given as arguments, and so is \<open>normalizeQuoteDepth\<close>, whose
  source is in another module.
\<close>

definition new_client ::
  "(int option \<Rightarrow> int) \<Rightarrow> string \<Rightarrow> string \<Rightarrow> client_options \<Rightarrow> js_error + client" where
  "new_client normalizeQuoteDepth uuid1 uuid2 options =
     (if falsy (cookie_authToken (opt_cookies options)) \<or> falsy (cookie_ct0 (opt_cookies options))
      then Inl (Error ''Both authToken and ct0 cookies are required'')
      else
        let a = the (cookie_authToken (opt_cookies options));
            c = the (cookie_ct0 (opt_cookies options))
        in Inr \<lparr>authToken = a, ct0 = c,
                cookieHeader = or_else (cookie_cookieHeader (opt_cookies options))
                                 (''auth_token='' @ a @ ''; ct0='' @ c),
                userAgent = or_else (opt_userAgent options) default_userAgent,
                timeoutMs = opt_timeoutMs options,
                quoteDepth = normalizeQuoteDepth (opt_quoteDepth options),
                clientUuid = uuid1, clientDeviceId = uuid2, clientUserId = None\<rparr>)"

section \<open>Query ids, the network, and the write operations\<close>

text \<open>
  The state that the operations of a client act on: the live cache of query ids (operation
  name to id), the outside world (network, clock), and a log of the requests handed to
  \<open>fetch\<close> so far, in order.
\<close>

record 'w net =
  net_cache :: "string \<rightharpoonup> string"
  net_world :: 'w
  net_log :: "request list"

text \<open>The result of \<open>getCurrentUser\<close>, by the fields that are read here.\<close>

record current_user_result =
  cur_success :: bool
  cur_user_id :: "string option"

text \<open>
  What the operations take from outside their own module: \<open>fetch\<close>; the constants of
  \<open>twitter-client-constants\<close>; whether \<open>process.env.NODE_ENV\<close> is \<open>test\<close>; the refresh of the
  runtime query ids, which gives a new cache or throws; \<open>getCurrentUser\<close>, which another
  mixin implements; the clock behind \<open>sleep\<close>; and, for the check after posting, the search
  for the posted text among the tweets of a timeline response
  (\<open>parseTweetsFromInstructions\<close> followed by \<open>findMatch\<close>, which reads the clock).
\<close>

record ('w, 'j) env =
  env_fetch :: "request \<Rightarrow> 'w \<Rightarrow> (js_error + 'j response) \<times> 'w"
  TWITTER_API_BASE :: string
  TWITTER_GRAPHQL_POST_URL :: string
  TWITTER_STATUS_UPDATE_URL :: string
  QUERY_IDS :: "string \<Rightarrow> string"
  node_env_test :: bool
  env_refresh :: "(string \<rightharpoonup> string) \<Rightarrow> 'w \<Rightarrow> (js_error + (string \<rightharpoonup> string)) \<times> 'w"
  env_getCurrentUser :: "'w net \<Rightarrow> current_user_result \<times> 'w net"
  env_sleep :: "int \<Rightarrow> 'w \<Rightarrow> 'w"
  env_findMatch :: "string \<Rightarrow> 'j json_body \<Rightarrow> 'w \<Rightarrow> string option"

subsection \<open>Query ids\<close>

text \<open>
  Modelled from the spec: \<open>runtimeQueryIds.getQueryId\<close> of the module
  \<open>runtime-query-ids\<close>, whose source is not at hand. The specification says that resolving
  looks the operation up in the process-wide cache, and that the static table is used
  when the cache has no entry: the lookup gives the cached id or nothing, and leaves the
  cache as it is.
\<close>

definition runtime_getQueryId ::
  "string \<Rightarrow> (string \<rightharpoonup> string) \<Rightarrow> string option \<times> (string \<rightharpoonup> string)" where
  "runtime_getQueryId operationName cache = (cache operationName, cache)"

text \<open>
  \<open>TwitterClientBase.getQueryId\<close>: \<open>cached ?? QUERY_IDS[operationName]\<close>. It is given the
  static table and the cache, and returns the id with the cache after the call.
\<close>

definition getQueryId ::
  "(string \<Rightarrow> string) \<Rightarrow> string \<Rightarrow> (string \<rightharpoonup> string) \<Rightarrow> string \<times> (string \<rightharpoonup> string)" where
  "getQueryId table operationName cache =
     (let (cached, cache') = runtime_getQueryId operationName cache
      in ((case cached of None \<Rightarrow> table operationName | Some q \<Rightarrow> q), cache'))"

text \<open>Resolving the same operation \<open>n\<close> times in a row: the ids in order, and the cache.\<close>

fun getQueryId_times ::
  "nat \<Rightarrow> (string \<Rightarrow> string) \<Rightarrow> string \<Rightarrow> (string \<rightharpoonup> string) \<Rightarrow> string list \<times> (string \<rightharpoonup> string)" where
  "getQueryId_times 0 table operationName cache = ([], cache)"
| "getQueryId_times (Suc n) table operationName cache =
     (let (q, cache') = getQueryId table operationName cache;
          (qs, cache'') = getQueryId_times n table operationName cache'
      in (q # qs, cache''))"

text \<open>\<open>getQueryId\<close> on the state of a client.\<close>

definition resolve :: "('w, 'j) env \<Rightarrow> string \<Rightarrow> 'w net \<Rightarrow> string \<times> 'w net" where
  "resolve env operationName s =
     (let (q, cache') = getQueryId (QUERY_IDS env) operationName (net_cache s)
      in (q, s\<lparr>net_cache := cache'\<rparr>))"

text \<open>
  \<open>refreshQueryIds\<close>: nothing under test; otherwise the refresh, whose failure is ignored.
\<close>

definition refreshQueryIds :: "('w, 'j) env \<Rightarrow> 'w net \<Rightarrow> 'w net" where
  "refreshQueryIds env s =
     (if node_env_test env then s
      else case env_refresh env (net_cache s) (net_world s) of
             (Inl e, w') \<Rightarrow> s\<lparr>net_world := w'\<rparr>
           | (Inr cache', w') \<Rightarrow> s\<lparr>net_cache := cache', net_world := w'\<rparr>)"

subsection \<open>Requests\<close>

text \<open>
  \<open>fetchWithTimeout\<close>: without a positive timeout the request goes to \<open>fetch\<close> as it is;
  with one, it goes with an abort signal for that timeout. The request is logged.
\<close>

definition with_timeout :: "client \<Rightarrow> request \<Rightarrow> request" where
  "with_timeout c req =
     (case timeoutMs c of
        None \<Rightarrow> req
      | Some t \<Rightarrow> if t \<le> 0 then req else req\<lparr>req_timeout := Some t\<rparr>)"

definition fetchWithTimeout ::
  "('w, 'j) env \<Rightarrow> client \<Rightarrow> request \<Rightarrow> 'w net \<Rightarrow> (js_error + 'j response) \<times> 'w net" where
  "fetchWithTimeout env c req s =
     (let (out, w') = env_fetch env (with_timeout c req) (net_world s)
      in (out, s\<lparr>net_world := w', net_log := net_log s @ [with_timeout c req]\<rparr>))"

text \<open>\<open>`HTTP ${response.status}: ${text.slice(0, 200)}`\<close>\<close>

definition http_error :: "nat \<Rightarrow> string \<Rightarrow> string" where
  "http_error status text = ''HTTP '' @ show_nat status @ '': '' @ take 200 text"

text \<open>\<open>`${TWITTER_API_BASE}/${queryId}/${operationName}`\<close>\<close>

definition operation_url :: "('w, 'j) env \<Rightarrow> string \<Rightarrow> string \<Rightarrow> string" where
  "operation_url env queryId operationName =
     TWITTER_API_BASE env @ ''/'' @ queryId @ ''/'' @ operationName"

text \<open>\<open>data.errors && data.errors.length > 0\<close>\<close>

definition has_errors :: "'j json_body \<Rightarrow> bool" where
  "has_errors data = (case body_errors data of None \<Rightarrow> False | Some es \<Rightarrow> es \<noteq> [])"

definition errors_of :: "'j json_body \<Rightarrow> api_error list" where
  "errors_of data = (case body_errors data of None \<Rightarrow> [] | Some es \<Rightarrow> es)"

subsection \<open>Engagement mutations\<close>

text \<open>\<open>BookmarkMutationResult\<close>: success, or failure with an error string.\<close>

datatype mutation_result = MutationOk | MutationFailed string

text \<open>
  The local function \<open>parseResponse\<close>. It awaits \<open>response.text()\<close> or \<open>response.json()\<close>;
  when that rejects, so does \<open>parseResponse\<close>, and so it does when the body is \<open>null\<close>
  and \<open>data.errors\<close> throws.
\<close>

definition parseResponse :: "'j response \<Rightarrow> js_error + mutation_result" where
  "parseResponse response =
     (if \<not> resp_ok response then
        (case resp_text response of
           Inl e \<Rightarrow> Inl e
         | Inr text \<Rightarrow> Inr (MutationFailed (http_error (resp_status response) text)))
      else
        (case resp_json response of
           Inl e \<Rightarrow> Inl e
         | Inr JsonNull \<Rightarrow> Inl (null_property_error ''errors'')
         | Inr (JsonObject data) \<Rightarrow>
             if has_errors data
             then Inr (MutationFailed (join '', '' (map err_message (errors_of data))))
             else Inr MutationOk))"

definition engagement_request ::
  "string \<Rightarrow> string \<Rightarrow> string \<Rightarrow> request" where
  "engagement_request url tweetId queryId =
     \<lparr>req_url = url, req_method = ''POST'',
      req_referer = ''https://x.com/i/status/'' @ tweetId,
      req_body = EngagementBody tweetId queryId, req_timeout = None\<rparr>"

text \<open>
  \<open>performEngagementMutation\<close>. The three calls of \<open>fetchWithTimeout\<close> are awaited inside
  \<open>try\<close>, so a rejection of \<open>fetch\<close> is caught and becomes a failure result. The two
  \<open>return parseResponse(...)\<close> hand the promise of \<open>parseResponse\<close> back without awaiting it:
  an \<open>async\<close> function that returns a promise settles as that promise does, and a
  rejection of a promise that is not awaited inside \<open>try\<close> does not reach \<open>catch\<close>. So
  when \<open>parseResponse\<close> rejects, the call rejects (\<open>Inl\<close>).
\<close>

definition performEngagementMutation ::
  "('w, 'j) env \<Rightarrow> client \<Rightarrow> string \<Rightarrow> string \<Rightarrow> 'w net \<Rightarrow> (js_error + mutation_result) \<times> 'w net" where
  "performEngagementMutation env c operationName tweetId s0 =
     (let (queryId, s) = resolve env operationName s0;
          urlWithOperation = operation_url env queryId operationName
      in case fetchWithTimeout env c (engagement_request urlWithOperation tweetId queryId) s of
           (Inl error, s1) \<Rightarrow> (Inr (MutationFailed (error_text error)), s1)
         | (Inr response, s1) \<Rightarrow>
             if resp_status response = 404 then
               (let s2 = refreshQueryIds env s1;
                    (queryId2, s3) = resolve env operationName s2;
                    urlWithOperation2 = operation_url env queryId2 operationName
                in case fetchWithTimeout env c
                          (engagement_request urlWithOperation2 tweetId queryId2) s3 of
                     (Inl error, s4) \<Rightarrow> (Inr (MutationFailed (error_text error)), s4)
                   | (Inr response2, s4) \<Rightarrow>
                       if resp_status response2 = 404 then
                         (case fetchWithTimeout env c
                                 (engagement_request (TWITTER_GRAPHQL_POST_URL env) tweetId queryId2) s4 of
                            (Inl error, s5) \<Rightarrow> (Inr (MutationFailed (error_text error)), s5)
                          | (Inr retry, s5) \<Rightarrow> (parseResponse retry, s5))
                       else (parseResponse response2, s4))
             else (parseResponse response, s1))"

definition like :: "('w, 'j) env \<Rightarrow> client \<Rightarrow> string \<Rightarrow> 'w net \<Rightarrow> (js_error + mutation_result) \<times> 'w net" where
  "like env c tweetId = performEngagementMutation env c ''FavoriteTweet'' tweetId"

definition unlike :: "('w, 'j) env \<Rightarrow> client \<Rightarrow> string \<Rightarrow> 'w net \<Rightarrow> (js_error + mutation_result) \<times> 'w net" where
  "unlike env c tweetId = performEngagementMutation env c ''UnfavoriteTweet'' tweetId"

definition retweet :: "('w, 'j) env \<Rightarrow> client \<Rightarrow> string \<Rightarrow> 'w net \<Rightarrow> (js_error + mutation_result) \<times> 'w net" where
  "retweet env c tweetId = performEngagementMutation env c ''CreateRetweet'' tweetId"

definition unretweet :: "('w, 'j) env \<Rightarrow> client \<Rightarrow> string \<Rightarrow> 'w net \<Rightarrow> (js_error + mutation_result) \<times> 'w net" where
  "unretweet env c tweetId = performEngagementMutation env c ''DeleteRetweet'' tweetId"

definition bookmark :: "('w, 'j) env \<Rightarrow> client \<Rightarrow> string \<Rightarrow> 'w net \<Rightarrow> (js_error + mutation_result) \<times> 'w net" where
  "bookmark env c tweetId = performEngagementMutation env c ''CreateBookmark'' tweetId"

subsection \<open>Posting\<close>

text \<open>\<open>TweetResult\<close>: success with the id of the tweet, or failure with an error string.\<close>

datatype tweet_result = TweetOk string | TweetFailed string

definition not_found_after_posting :: string where
  "not_found_after_posting =
     ''Tweet not found after posting - may have been filtered or failed silently''"

text \<open>\<open>formatErrors\<close>: each message, with its code in parentheses when it has one.\<close>

definition format_error :: "api_error \<Rightarrow> string" where
  "format_error e =
     (case err_code e of
        Some code \<Rightarrow> err_message e @ '' ('' @ code @ '')''
      | None \<Rightarrow> err_message e)"

definition formatErrors :: "api_error list \<Rightarrow> string" where
  "formatErrors errors = join '', '' (map format_error errors)"

text \<open>
  \<open>statusUpdateInputFromCreateTweetVariables\<close>: nothing when the text is empty; otherwise
  the text, the tweet replied to, and the media ids when there are any.
\<close>

record status_update_input =
  input_text :: string
  input_inReplyToTweetId :: "string option"
  input_mediaIds :: "string list option"

definition statusUpdateInputFromCreateTweetVariables ::
  "create_variables \<Rightarrow> status_update_input option" where
  "statusUpdateInputFromCreateTweetVariables variables =
     (if tweet_text variables = [] then None
      else Some \<lparr>input_text = tweet_text variables,
                 input_inReplyToTweetId = in_reply_to_tweet_id variables,
                 input_mediaIds = (if media_ids variables \<noteq> [] then Some (media_ids variables)
                                   else None)\<rparr>)"

text \<open>The form parameters that \<open>postStatusUpdate\<close> sets, in order.\<close>

definition status_update_params :: "status_update_input \<Rightarrow> (string \<times> string) list" where
  "status_update_params input =
     [(''status'', input_text input)] @
     (if \<not> falsy (input_inReplyToTweetId input)
      then [(''in_reply_to_status_id'', the (input_inReplyToTweetId input)),
            (''auto_populate_reply_metadata'', ''true'')]
      else []) @
     (case input_mediaIds input of
        Some ids \<Rightarrow> if ids \<noteq> [] then [(''media_ids'', join '','' ids)] else []
      | None \<Rightarrow> [])"

definition status_update_request :: "('w, 'j) env \<Rightarrow> status_update_input \<Rightarrow> request" where
  "status_update_request env input =
     \<lparr>req_url = TWITTER_STATUS_UPDATE_URL env, req_method = ''POST'',
      req_referer = ''https://x.com/compose/post'',
      req_body = FormBody (status_update_params input), req_timeout = None\<rparr>"

text \<open>
  \<open>postStatusUpdate\<close>, the legacy write: one request; everything after its construction is
  inside \<open>try\<close> and awaited, so every throw becomes a failure result, also the one of
  \<open>data.errors\<close> on the body \<open>null\<close>.
\<close>

definition postStatusUpdate ::
  "('w, 'j) env \<Rightarrow> client \<Rightarrow> status_update_input \<Rightarrow> 'w net \<Rightarrow> tweet_result \<times> 'w net" where
  "postStatusUpdate env c input s =
     (case fetchWithTimeout env c (status_update_request env input) s of
        (Inl error, s1) \<Rightarrow> (TweetFailed (error_text error), s1)
      | (Inr response, s1) \<Rightarrow>
          if \<not> resp_ok response then
            (case resp_text response of
               Inl error \<Rightarrow> (TweetFailed (error_text error), s1)
             | Inr text \<Rightarrow> (TweetFailed (http_error (resp_status response) text), s1))
          else
            (case resp_json response of
               Inl error \<Rightarrow> (TweetFailed (error_text error), s1)
             | Inr JsonNull \<Rightarrow> (TweetFailed (error_text (null_property_error ''errors'')), s1)
             | Inr (JsonObject data) \<Rightarrow>
                 if has_errors data then (TweetFailed (formatErrors (errors_of data)), s1)
                 else
                   (let tweetId = (case body_id_str data of
                                     Some i \<Rightarrow> Some i
                                   | None \<Rightarrow> body_id data)
                    in if \<not> falsy tweetId then (TweetOk (the tweetId), s1)
                       else (TweetFailed not_found_after_posting, s1))))"

text \<open>\<open>errors.some((error) => error.code === 226)\<close>\<close>

definition has_code_226 :: "api_error list \<Rightarrow> bool" where
  "has_code_226 errors = list_ex (\<lambda>error. err_code error = Some ''226'') errors"

text \<open>
  \<open>tryStatusUpdateFallback\<close>: \<open>null\<close> when no error has code 226, and when the variables
  give no input for the legacy write; otherwise the result of the legacy write when it
  succeeds, and else a failure that joins both errors.
\<close>

definition tryStatusUpdateFallback ::
  "('w, 'j) env \<Rightarrow> client \<Rightarrow> api_error list \<Rightarrow> create_variables \<Rightarrow> 'w net
     \<Rightarrow> tweet_result option \<times> 'w net" where
  "tryStatusUpdateFallback env c errors variables s =
     (if \<not> has_code_226 errors then (None, s)
      else case statusUpdateInputFromCreateTweetVariables variables of
             None \<Rightarrow> (None, s)
           | Some input \<Rightarrow>
               (case postStatusUpdate env c input s of
                  (TweetOk tweetId, s1) \<Rightarrow> (Some (TweetOk tweetId), s1)
                | (TweetFailed error, s1) \<Rightarrow>
                    (Some (TweetFailed (formatErrors errors @ '' | fallback: '' @ error)), s1)))"

text \<open>\<open>extractTweetIdFromResponse\<close>: the first of the three places that holds a non-empty id.\<close>

definition extractTweetIdFromResponse :: "'j json_body \<Rightarrow> string option" where
  "extractTweetIdFromResponse data =
     (if \<not> falsy (body_rest_id data) then body_rest_id data
      else if \<not> falsy (body_tweet_rest_id data) then body_tweet_rest_id data
      else if \<not> falsy (body_legacy_id_str data) then body_legacy_id_str data
      else None)"

definition user_tweets_request :: "('w, 'j) env \<Rightarrow> string \<Rightarrow> request" where
  "user_tweets_request env queryId =
     \<lparr>req_url = operation_url env queryId ''UserTweets'' @ ''?'', req_method = ''GET'',
      req_referer = ''https://x.com/'', req_body = NoBody, req_timeout = None\<rparr>"

definition sleep :: "('w, 'j) env \<Rightarrow> int \<Rightarrow> 'w net \<Rightarrow> 'w net" where
  "sleep env ms s = s\<lparr>net_world := env_sleep env ms (net_world s)\<rparr>"

text \<open>\<open>findMatch\<close> on a timeline response; an empty id counts as no match.\<close>

definition findMatch :: "('w, 'j) env \<Rightarrow> string \<Rightarrow> 'j json_body \<Rightarrow> 'w net \<Rightarrow> string option" where
  "findMatch env expectedText data s =
     (let m = env_findMatch env expectedText data (net_world s)
      in if falsy m then None else m)"

text \<open>
  \<open>verifyTweetByFetching\<close>: without a user id, nothing. Otherwise wait, fetch the recent
  tweets of the user, look for the text; when it is not found, wait and fetch once more.
  The query string of the URL (variables, features, field toggles) is left out. Every
  throw inside gives \<open>undefined\<close>, also the one of \<open>data.data\<close> on the body \<open>null\<close>.
\<close>

definition verifyTweetByFetching ::
  "('w, 'j) env \<Rightarrow> client \<Rightarrow> string \<Rightarrow> 'w net \<Rightarrow> string option \<times> 'w net" where
  "verifyTweetByFetching env c expectedText s0 =
     (if falsy (clientUserId c) then (None, s0)
      else
        let s1 = sleep env 1500 s0;
            (queryId, s2) = resolve env ''UserTweets'' s1
        in case fetchWithTimeout env c (user_tweets_request env queryId) s2 of
             (Inl error, s3) \<Rightarrow> (None, s3)
           | (Inr response, s3) \<Rightarrow>
               if \<not> resp_ok response then (None, s3)
               else
                 (case resp_json response of
                    Inl error \<Rightarrow> (None, s3)
                  | Inr JsonNull \<Rightarrow> (None, s3)
                  | Inr (JsonObject data) \<Rightarrow>
                      (case findMatch env expectedText data s3 of
                         Some firstMatch \<Rightarrow> (Some firstMatch, s3)
                       | None \<Rightarrow>
                           (let s4 = sleep env 1500 s3
                            in case fetchWithTimeout env c (user_tweets_request env queryId) s4 of
                                 (Inl error, s5) \<Rightarrow> (None, s5)
                               | (Inr retryResponse, s5) \<Rightarrow>
                                   if resp_ok retryResponse then
                                     (case resp_json retryResponse of
                                        Inl error \<Rightarrow> (None, s5)
                                      | Inr JsonNull \<Rightarrow> (None, s5)
                                      | Inr (JsonObject retryData) \<Rightarrow>
                                          (findMatch env expectedText retryData s5, s5))
                                   else (None, s5)))))"

text \<open>
  What \<open>createTweet\<close> does with the response it settles on. The source has this sequence
  twice, once for the response of the generic endpoint and once for the response of the
  operation URL, the same but for logging: an HTTP error; else the parsed body; with
  errors in it the fallback, or the formatted errors as failure; else the id from the body;
  else the check by fetching, when the text is not empty; else failure. A throw inside
  (a rejection of \<open>text()\<close> or \<open>json()\<close>, or \<open>data.errors\<close> on the body \<open>null\<close>) is caught by
  the \<open>catch\<close> of \<open>createTweet\<close>.
\<close>

definition handle_create_response ::
  "('w, 'j) env \<Rightarrow> client \<Rightarrow> create_variables \<Rightarrow> 'j response \<Rightarrow> 'w net \<Rightarrow> tweet_result \<times> 'w net" where
  "handle_create_response env c variables response s =
     (if \<not> resp_ok response then
        (case resp_text response of
           Inl error \<Rightarrow> (TweetFailed (error_text error), s)
         | Inr text \<Rightarrow> (TweetFailed (http_error (resp_status response) text), s))
      else
        (case resp_json response of
           Inl error \<Rightarrow> (TweetFailed (error_text error), s)
         | Inr JsonNull \<Rightarrow> (TweetFailed (error_text (null_property_error ''errors'')), s)
         | Inr (JsonObject data) \<Rightarrow>
             if has_errors data then
               (case tryStatusUpdateFallback env c (errors_of data) variables s of
                  (Some fallback, s1) \<Rightarrow> (fallback, s1)
                | (None, s1) \<Rightarrow> (TweetFailed (formatErrors (errors_of data)), s1))
             else
               (case extractTweetIdFromResponse data of
                  Some tweetId \<Rightarrow> (TweetOk tweetId, s)
                | None \<Rightarrow>
                    if tweet_text variables \<noteq> [] then
                      (case verifyTweetByFetching env c (tweet_text variables) s of
                         (Some verifiedId, s1) \<Rightarrow>
                           if verifiedId \<noteq> [] then (TweetOk verifiedId, s1)
                           else (TweetFailed not_found_after_posting, s1)
                       | (None, s1) \<Rightarrow> (TweetFailed not_found_after_posting, s1))
                    else (TweetFailed not_found_after_posting, s))))"

text \<open>\<open>ensureClientUserId\<close>: sets the user id of the client once, outside tests.\<close>

definition ensureClientUserId :: "('w, 'j) env \<Rightarrow> client \<Rightarrow> 'w net \<Rightarrow> client \<times> 'w net" where
  "ensureClientUserId env c s =
     (if node_env_test env then (c, s)
      else if \<not> falsy (clientUserId c) then (c, s)
      else
        let (result, s1) = env_getCurrentUser env s
        in if cur_success result \<and> \<not> falsy (cur_user_id result)
           then (c\<lparr>clientUserId := cur_user_id result\<rparr>, s1)
           else (c, s1))"

definition create_tweet_request :: "string \<Rightarrow> create_variables \<Rightarrow> string \<Rightarrow> request" where
  "create_tweet_request url variables queryId =
     \<lparr>req_url = url, req_method = ''POST'', req_referer = ''https://x.com/compose/post'',
      req_body = CreateTweetBody variables queryId, req_timeout = None\<rparr>"

text \<open>
  \<open>createTweet\<close>: the request against the operation URL; on 404 a refresh of the query
  ids and a second request with the id resolved anew; on a second 404 one request against
  the generic endpoint. Everything from the first request on is inside \<open>try\<close> and
  awaited. The result comes with the client, whose user id the first step may have set.
  The calls of the logger, which swallows its own errors, are left out.
\<close>

definition createTweet ::
  "('w, 'j) env \<Rightarrow> client \<Rightarrow> create_variables \<Rightarrow> 'w net \<Rightarrow> tweet_result \<times> client \<times> 'w net" where
  "createTweet env c0 variables s0 =
     (let (c, sa) = ensureClientUserId env c0 s0;
          (queryId, s) = resolve env ''CreateTweet'' sa;
          urlWithOperation = operation_url env queryId ''CreateTweet''
      in case fetchWithTimeout env c (create_tweet_request urlWithOperation variables queryId) s of
           (Inl error, s1) \<Rightarrow> (TweetFailed (error_text error), c, s1)
         | (Inr response, s1) \<Rightarrow>
             if resp_status response = 404 then
               (let s2 = refreshQueryIds env s1;
                    (queryId2, s3) = resolve env ''CreateTweet'' s2;
                    urlWithOperation2 = operation_url env queryId2 ''CreateTweet''
                in case fetchWithTimeout env c
                          (create_tweet_request urlWithOperation2 variables queryId2) s3 of
                     (Inl error, s4) \<Rightarrow> (TweetFailed (error_text error), c, s4)
                   | (Inr response2, s4) \<Rightarrow>
                       if resp_status response2 = 404 then
                         (case fetchWithTimeout env c
                                 (create_tweet_request (TWITTER_GRAPHQL_POST_URL env) variables queryId2) s4 of
                            (Inl error, s5) \<Rightarrow> (TweetFailed (error_text error), c, s5)
                          | (Inr retry, s5) \<Rightarrow>
                              (let (r, s6) = handle_create_response env c variables retry s5
                               in (r, c, s6)))
                       else
                         (let (r, s5) = handle_create_response env c variables response2 s4
                          in (r, c, s5)))
             else
               (let (r, s2) = handle_create_response env c variables response s1
                in (r, c, s2)))"

text \<open>The public methods \<open>tweet\<close> and \<open>reply\<close>.\<close>

definition tweet ::
  "('w, 'j) env \<Rightarrow> client \<Rightarrow> string \<Rightarrow> string list \<Rightarrow> 'w net \<Rightarrow> tweet_result \<times> client \<times> 'w net" where
  "tweet env c text mediaIds =
     createTweet env c \<lparr>tweet_text = text, in_reply_to_tweet_id = None, media_ids = mediaIds\<rparr>"

definition reply ::
  "('w, 'j) env \<Rightarrow> client \<Rightarrow> string \<Rightarrow> string \<Rightarrow> string list \<Rightarrow> 'w net
     \<Rightarrow> tweet_result \<times> client \<times> 'w net" where
  "reply env c text replyToTweetId mediaIds =
     createTweet env c
       \<lparr>tweet_text = text, in_reply_to_tweet_id = Some replyToTweetId, media_ids = mediaIds\<rparr>"

subsection \<open>Auxiliary notions for the proofs\<close>

text \<open>
  The first part of \<open>createTweet\<close>, after the user id of the client has been looked
  after: the one, two or three create-tweet requests, up to the outcome that the function
  goes on from. That is the rejection of a request, or the response to be handled: the
  first response whose status is not 404, or whatever the third request, at the generic
  endpoint, is answered with.
\<close>

definition settled_response ::
  "('w, 'j) env \<Rightarrow> client \<Rightarrow> create_variables \<Rightarrow> 'w net \<Rightarrow> (js_error + 'j response) \<times> 'w net" where
  "settled_response env c variables sa =
     (let (queryId, s) = resolve env ''CreateTweet'' sa;
          urlWithOperation = operation_url env queryId ''CreateTweet''
      in case fetchWithTimeout env c (create_tweet_request urlWithOperation variables queryId) s of
           (Inl error, s1) \<Rightarrow> (Inl error, s1)
         | (Inr response, s1) \<Rightarrow>
             if resp_status response = 404 then
               (let s2 = refreshQueryIds env s1;
                    (queryId2, s3) = resolve env ''CreateTweet'' s2;
                    urlWithOperation2 = operation_url env queryId2 ''CreateTweet''
                in case fetchWithTimeout env c
                          (create_tweet_request urlWithOperation2 variables queryId2) s3 of
                     (Inl error, s4) \<Rightarrow> (Inl error, s4)
                   | (Inr response2, s4) \<Rightarrow>
                       if resp_status response2 = 404 then
                         fetchWithTimeout env c
                           (create_tweet_request (TWITTER_GRAPHQL_POST_URL env) variables queryId2) s4
                       else (Inr response2, s4))
             else (Inr response, s1))"

text \<open>
  The kinds of request in the log: a create-tweet request carries the GraphQL body of
  \<open>createTweet\<close>, a legacy write carries form parameters.
\<close>

definition is_create_tweet_request :: "request \<Rightarrow> bool" where
  "is_create_tweet_request req =
     (case req_body req of CreateTweetBody variables queryId \<Rightarrow> True | _ \<Rightarrow> False)"

definition is_legacy_write :: "request \<Rightarrow> bool" where
  "is_legacy_write req = (case req_body req of FormBody params \<Rightarrow> True | _ \<Rightarrow> False)"

definition create_tweet_requests :: "request list \<Rightarrow> request list" where
  "create_tweet_requests log = filter is_create_tweet_request log"

definition legacy_writes :: "request list \<Rightarrow> request list" where
  "legacy_writes log = filter is_legacy_write log"

subsection \<open>A scripted network\<close>

text \<open>
  A network after the mocked \<open>fetch\<close> of the test suite: the world is the list of the
  outcomes still to come, each call of \<open>fetch\<close> takes the next one, and a call with none
  left throws. The suite runs with \<open>NODE_ENV\<close> set to \<open>test\<close>. The URLs and the table of
  query ids are stand-ins for the constants of \<open>twitter-client-constants\<close>.
\<close>

type_synonym script = "(js_error + unit response) list"

definition scripted_fetch :: "request \<Rightarrow> script \<Rightarrow> (js_error + unit response) \<times> script" where
  "scripted_fetch req w =
     (case w of
        [] \<Rightarrow> (Inl (Error ''no mocked response left''), [])
      | out # rest \<Rightarrow> (out, rest))"

definition scripted_env :: "(script, unit) env" where
  "scripted_env =
     \<lparr>env_fetch = scripted_fetch,
      TWITTER_API_BASE = ''https://x.com/i/api/graphql'',
      TWITTER_GRAPHQL_POST_URL = ''https://x.com/i/api/graphql'',
      TWITTER_STATUS_UPDATE_URL = ''https://x.com/i/api/1.1/statuses/update.json'',
      QUERY_IDS = (\<lambda>operationName. ''default-id''),
      node_env_test = True,
      env_refresh = (\<lambda>cache w. (Inr cache, w)),
      env_getCurrentUser = (\<lambda>s. (\<lparr>cur_success = False, cur_user_id = None\<rparr>, s)),
      env_sleep = (\<lambda>ms w. w),
      env_findMatch = (\<lambda>text data w. None)\<rparr>"

definition test_client :: client where
  "test_client =
     \<lparr>authToken = ''test_auth_token'', ct0 = ''test_ct0_token'',
      cookieHeader = ''auth_token=test_auth_token; ct0=test_ct0_token'',
      userAgent = default_userAgent, timeoutMs = None, quoteDepth = 1,
      clientUuid = ''uuid-1'', clientDeviceId = ''uuid-2'', clientUserId = None\<rparr>"

definition start :: "script \<Rightarrow> script net" where
  "start w = \<lparr>net_cache = Map.empty, net_world = w, net_log = []\<rparr>"

definition empty_body :: "unit json_body" where
  "empty_body =
     \<lparr>body_errors = None, body_rest_id = None, body_tweet_rest_id = None,
      body_legacy_id_str = None, body_id_str = None, body_id = None, body_rest = ()\<rparr>"

text \<open>\<open>{ ok: false, status: 404, text: async () => 'Not found' }\<close>\<close>

definition not_found :: "unit response" where
  "not_found =
     \<lparr>resp_ok = False, resp_status = 404, resp_text = Inr ''Not found'',
      resp_json = Inl (Error ''not JSON'')\<rparr>"

text \<open>\<open>{ ok: true, status: 200, json: async () => data }\<close>\<close>

definition ok_json :: "unit json_body \<Rightarrow> unit response" where
  "ok_json data =
     \<lparr>resp_ok = True, resp_status = 200, resp_text = Inl (Error ''text is not mocked''),
      resp_json = Inr (JsonObject data)\<rparr>"

text \<open>\<open>{ ok: true, status: 200, json: async () => null }\<close>\<close>

definition ok_null :: "unit response" where
  "ok_null =
     \<lparr>resp_ok = True, resp_status = 200, resp_text = Inl (Error ''text is not mocked''),
      resp_json = Inr JsonNull\<rparr>"

text \<open>A response with status 200 whose body is not JSON: \<open>response.json()\<close> rejects.\<close>

definition ok_not_json :: "unit response" where
  "ok_not_json =
     \<lparr>resp_ok = True, resp_status = 200, resp_text = Inr '''',
      resp_json = Inl (Error ''Unexpected end of JSON input'')\<rparr>"

text \<open>Options with valid cookies, and options in which \<open>ct0\<close> is empty.\<close>

definition valid_options :: client_options where
  "valid_options =
     \<lparr>opt_cookies = \<lparr>cookie_authToken = Some ''test_auth_token'',
                     cookie_ct0 = Some ''test_ct0_token'', cookie_cookieHeader = None\<rparr>,
      opt_userAgent = None, opt_timeoutMs = None, opt_quoteDepth = None\<rparr>"

definition options_without_ct0 :: client_options where
  "options_without_ct0 =
     \<lparr>opt_cookies = \<lparr>cookie_authToken = Some ''test_auth_token'',
                     cookie_ct0 = Some [], cookie_cookieHeader = None\<rparr>,
      opt_userAgent = None, opt_timeoutMs = None, opt_quoteDepth = None\<rparr>"

text \<open>
  Response bodies: the errors of a rejected automated request (code 226), and the answer
  of the legacy endpoint to a successful write.
\<close>

definition automated_error :: api_error where
  "automated_error = \<lparr>err_message = ''This request looks like it might be automated.'',
                        err_code = Some ''226''\<rparr>"

definition errors_226 :: "unit json_body" where
  "errors_226 = empty_body\<lparr>body_errors := Some [automated_error]\<rparr>"

definition legacy_created :: "unit json_body" where
  "legacy_created = empty_body\<lparr>body_id_str := Some ''999''\<rparr>"

text \<open>
  A response that is not ok (status 403) although its JSON body carries the error 226,
  and a body whose one error has another code.
\<close>

definition forbidden_226 :: "unit response" where
  "forbidden_226 =
     \<lparr>resp_ok = False, resp_status = 403, resp_text = Inr ''Forbidden'',
      resp_json = Inr (JsonObject errors_226)\<rparr>"

definition rate_limit_error :: api_error where
  "rate_limit_error = \<lparr>err_message = ''Rate limit exceeded'', err_code = Some ''88''\<rparr>"

definition errors_88 :: "unit json_body" where
  "errors_88 = empty_body\<lparr>body_errors := Some [rate_limit_error]\<rparr>"

definition hello :: create_variables where
  "hello = \<lparr>tweet_text = ''Hello'', in_reply_to_tweet_id = None, media_ids = []\<rparr>"

definition media_only :: create_variables where
  "media_only = \<lparr>tweet_text = [], in_reply_to_tweet_id = None, media_ids = [''media-1'']\<rparr>"

text \<open>The state of the scripted network with given outcomes to come and a given log.\<close>

definition state_of :: "script \<Rightarrow> request list \<Rightarrow> script net" where
  "state_of w reqs = \<lparr>net_cache = Map.empty, net_world = w, net_log = reqs\<rparr>"

definition like_request :: request where
  "like_request =
     engagement_request ''https://x.com/i/api/graphql/default-id/FavoriteTweet''
       ''1234567890'' ''default-id''"


definition hello_request :: request where
  "hello_request =
     create_tweet_request ''https://x.com/i/api/graphql/default-id/CreateTweet'' hello ''default-id''"



definition hello_input :: status_update_input where
  "hello_input = \<lparr>input_text = ''Hello'', input_inReplyToTweetId = None, input_mediaIds = None\<rparr>"

section \<open>Article text\<close>

text \<open>
  The rich content of an article is a list of blocks, each with a type tag and a text;
  the article has a stored title.
\<close>

record content_block =
  block_type :: string
  block_text :: string

record article =
  article_title :: string
  article_blocks :: "content_block list"

definition newline :: string where
  "newline = [CHR 0x0A]"

text \<open>
  Modelled from the spec: the rendering of one content block, which belongs to the module
  \<open>twitter-client-utils\<close>, whose source is not at hand. The specification says that each
  content block is rendered to one line and that a top-level heading becomes a
  markdown-style heading line. How the other kinds of block are rendered to their line it
  does not say, so that is the argument \<open>render_other\<close>.
\<close>

definition render_block :: "(content_block \<Rightarrow> string) \<Rightarrow> content_block \<Rightarrow> string" where
  "render_block render_other b =
     (if block_type b = ''header-one'' then ''# '' @ block_text b else render_other b)"

text \<open>
  Modelled from the spec: the lines of the text of an article, as \<open>extractArticleText\<close> of
  the module \<open>twitter-client-utils\<close> (whose source is not at hand) puts them together. The
  specification says that each content block is rendered to one line, and that a leading
  top-level heading whose text equals the stored title is the title itself, which is then
  not put in a second time. What lines are put in front for the title when the content
  does not start with it the specification does not say, so that is the argument
  \<open>title_lines\<close>.
\<close>

definition article_lines ::
  "(content_block \<Rightarrow> string) \<Rightarrow> (string \<Rightarrow> string list) \<Rightarrow> article \<Rightarrow> string list" where
  "article_lines render_other title_lines a =
     (let rendered = map (render_block render_other) (article_blocks a)
      in case article_blocks a of
           [] \<Rightarrow> title_lines (article_title a) @ rendered
         | b # rest \<Rightarrow>
             if block_type b = ''header-one'' \<and> block_text b = article_title a then rendered
             else title_lines (article_title a) @ rendered)"

text \<open>
  Modelled from the spec: \<open>extractArticleText\<close> of the module \<open>twitter-client-utils\<close>, whose
  source is not at hand. The specification says that the text of an article is its rich
  content rendered into a flat string: the lines, one below the other.
\<close>

definition extractArticleText ::
  "(content_block \<Rightarrow> string) \<Rightarrow> (string \<Rightarrow> string list) \<Rightarrow> article \<Rightarrow> string" where
  "extractArticleText render_other title_lines a =
     join newline (article_lines render_other title_lines a)"

text \<open>
  The article of the test \<open>does not duplicate title when rich content starts with a
  heading\<close>, and one with a paragraph below the heading.
\<close>

definition hello_world_article :: article where
  "hello_world_article =
     \<lparr>article_title = ''Hello World'',
      article_blocks = [\<lparr>block_type = ''header-one'', block_text = ''Hello World''\<rparr>]\<rparr>"

definition two_block_article :: article where
  "two_block_article =
     \<lparr>article_title = ''Hello World'',
      article_blocks = [\<lparr>block_type = ''header-one'', block_text = ''Hello World''\<rparr>,
                        \<lparr>block_type = ''unstyled'', block_text = ''Body''\<rparr>]\<rparr>"
section \<open>Properties of the paginator\<close>

lemma first_occurrences_keys: "k ` set (first_occurrences k xs) = k ` set xs"
proof (induction k xs rule: first_occurrences.induct)
  case (1 k)
  then show ?case by simp
next
  case (2 k x xs)
  then show ?case by auto
qed

lemma first_occurrences_distinct: "distinct (map k (first_occurrences k xs))"
proof (induction k xs rule: first_occurrences.induct)
  case (1 k)
  then show ?case by simp
next
  case (2 k x xs)
  have "k x \<notin> k ` set (filter (\<lambda>y. k y \<noteq> k x) xs)" by auto
  then have "k x \<notin> k ` set (first_occurrences k (filter (\<lambda>y. k y \<noteq> k x) xs))"
    by (simp add: first_occurrences_keys)
  with 2 show ?case by simp
qed

lemma first_occurrences_snoc:
  "first_occurrences k (xs @ [x]) =
     (if k x \<in> k ` set xs then first_occurrences k xs else first_occurrences k xs @ [x])"
proof (induction k xs rule: first_occurrences.induct)
  case (1 k)
  then show ?case by simp
next
  case (2 k y ys)
  show ?case
  proof (cases "k x = k y")
    case True
    then show ?thesis by simp
  next
    case False
    have "k x \<in> k ` set (filter (\<lambda>z. k z \<noteq> k y) ys) \<longleftrightarrow> k x \<in> k ` set ys"
      using False by auto
    with 2 False show ?thesis by auto
  qed
qed

lemma first_occurrences_Nil_iff: "first_occurrences k xs = [] \<longleftrightarrow> xs = []"
  by (cases xs) simp_all

text \<open>By positions: an item is kept exactly when no earlier position holds its key.\<close>

lemma first_occurrences_positions:
  "first_occurrences k xs =
     map ((!) xs) (filter (\<lambda>i. k (xs ! i) \<notin> k ` set (take i xs)) [0..<length xs])"
proof (induction xs rule: rev_induct)
  case Nil
  then show ?case by simp
next
  case (snoc x xs)
  have f: "filter (\<lambda>i. k ((xs @ [x]) ! i) \<notin> k ` set (take i (xs @ [x]))) [0..<length xs] =
           filter (\<lambda>i. k (xs ! i) \<notin> k ` set (take i xs)) [0..<length xs]"
    by (rule filter_cong) (auto simp: nth_append)
  have m: "map ((!) (xs @ [x])) (filter (\<lambda>i. k (xs ! i) \<notin> k ` set (take i xs)) [0..<length xs]) =
           map ((!) xs) (filter (\<lambda>i. k (xs ! i) \<notin> k ` set (take i xs)) [0..<length xs])"
    by (rule map_cong) (auto simp: nth_append)
  have l: "k ((xs @ [x]) ! length xs) \<notin> k ` set (take (length xs) (xs @ [x])) \<longleftrightarrow>
           k x \<notin> k ` set xs"
    by simp
  have "map ((!) (xs @ [x]))
          (filter (\<lambda>i. k ((xs @ [x]) ! i) \<notin> k ` set (take i (xs @ [x]))) [0..<length (xs @ [x])]) =
        map ((!) (xs @ [x]))
          (filter (\<lambda>i. k ((xs @ [x]) ! i) \<notin> k ` set (take i (xs @ [x]))) [0..<length xs]) @
        (if k x \<notin> k ` set xs then [x] else [])"
    using l by (simp del: take_append)
  also have "\<dots> = first_occurrences k xs @ (if k x \<notin> k ` set xs then [x] else [])"
    unfolding f m snoc.IH[symmetric] ..
  finally show ?case
    by (simp add: first_occurrences_snoc)
qed

lemma add_items_first_occurrences:
  "sn = k ` set its \<Longrightarrow> its = first_occurrences k enc \<Longrightarrow>
   add_items k xs (sn, its) = (sn', its') \<Longrightarrow>
   sn' = k ` set its' \<and> its' = first_occurrences k (enc @ xs)"
proof (induction xs arbitrary: sn its enc)
  case Nil
  then show ?case by auto
next
  case (Cons x xs)
  have keys: "sn = k ` set enc"
    using Cons.prems(1,2) by (simp add: first_occurrences_keys)
  show ?case
  proof (cases "k x \<in> sn")
    case True
    have fe: "its = first_occurrences k (enc @ [x])"
      using Cons.prems(2) True keys by (simp add: first_occurrences_snoc)
    have "add_items k xs (sn, its) = (sn', its')"
      using Cons.prems(3) True by simp
    from Cons.IH[OF Cons.prems(1) fe this] show ?thesis by simp
  next
    case False
    have fe: "its @ [x] = first_occurrences k (enc @ [x])"
      using Cons.prems(2) False keys by (simp add: first_occurrences_snoc)
    have s: "insert (k x) sn = k ` set (its @ [x])" using Cons.prems(1) by auto
    have "add_items k xs (insert (k x) sn, its @ [x]) = (sn', its')"
      using Cons.prems(3) False by simp
    from Cons.IH[OF s fe this] show ?thesis by simp
  qed
qed

lemma paginate_loop_rule:
  assumes run: "paginate_loop opts st = Some r"
    and init: "I st"
    and step: "\<And>s s'. I s \<Longrightarrow> loop_body opts s = Inr s' \<Longrightarrow> I s'"
    and stop: "\<And>s r. I s \<Longrightarrow> loop_body opts s = Inl r \<Longrightarrow> Q r"
  shows "Q r"
proof -
  have "opts = opts \<longrightarrow> I st \<longrightarrow> Q r"
  proof (rule paginate_loop.raw_induct
      [where P = "\<lambda>o' s q. o' = opts \<longrightarrow> I s \<longrightarrow> Q q", OF _ run])
    fix f o' s q
    assume ih: "\<And>a b y. f a b = Some y \<Longrightarrow> a = opts \<longrightarrow> I b \<longrightarrow> Q y"
      and eq: "(case loop_body o' s of Inl r \<Rightarrow> Some r | Inr st' \<Rightarrow> f o' st') = Some q"
    show "o' = opts \<longrightarrow> I s \<longrightarrow> Q q"
    proof (intro impI)
      assume o: "o' = opts" and i: "I s"
      show "Q q"
      proof (cases "loop_body opts s")
        case (Inl r')
        with eq o have "r' = q" by simp
        with Inl i show ?thesis using stop by simp
      next
        case (Inr s')
        with eq o have f: "f o' s' = Some q" by simp
        have "I s'" using step[OF i Inr] .
        with ih[OF f] o show ?thesis by simp
      qed
    qed
  qed
  with init show ?thesis by simp
qed



subsection \<open>One iteration, case by case\<close>

lemma encountered_simps [simp]:
  "encountered [] = []"
  "encountered (evs @ [ev]) = encountered evs @ event_items ev"
  by (simp_all add: encountered_def)

lemma fetch_count_simps [simp]:
  "fetch_count [] = 0"
  "fetch_count (evs @ [ev]) = fetch_count evs + (if is_fetch ev then 1 else 0)"
  by (simp_all add: fetch_count_def)

lemma loop_body_fail:
  assumes "opt_fetchPage opts (cursor st) (world_before_fetch opts st) = (PageFail e, w2)"
  shows "loop_body opts st =
     Inl \<lparr>result = (if items st \<noteq> [] then ResultFail e (Some (items st)) (cursor st)
                     else ResultFail e None None),
          final_world = w2, run_events = events_with_fetch opts st (PageFail e)\<rparr>"
  using assms
  by (simp add: loop_body_def Let_def world_before_fetch_def events_with_fetch_def slept_def)

lemma loop_body_ok:
  assumes "opt_fetchPage opts (cursor st) (world_before_fetch opts st) = (PageOk xs pc, w2)"
    and "add_items (opt_getKey opts) xs (seen st, items st) = (sn, its)"
  shows "loop_body opts st =
     (if cursor_absent pc \<or> pc = cursor st
      then Inl \<lparr>result = ResultOk its None, final_world = w2,
                run_events = events_with_fetch opts st (PageOk xs pc)\<rparr>
      else if limit_reached (opt_maxPages opts) (pagesFetched st + 1)
      then Inl \<lparr>result = ResultOk its pc, final_world = w2,
                run_events = events_with_fetch opts st (PageOk xs pc)\<rparr>
      else Inr \<lparr>seen = sn, items = its, cursor = pc, pagesFetched = pagesFetched st + 1,
                world = w2, events = events_with_fetch opts st (PageOk xs pc)\<rparr>)"
  using assms
  by (simp add: loop_body_def Let_def world_before_fetch_def events_with_fetch_def slept_def)

lemma loop_body_cases:
  obtains (fail) e w2 where
      "opt_fetchPage opts (cursor st) (world_before_fetch opts st) = (PageFail e, w2)"
  | (ok) xs pc w2 sn its where
      "opt_fetchPage opts (cursor st) (world_before_fetch opts st) = (PageOk xs pc, w2)"
      "add_items (opt_getKey opts) xs (seen st, items st) = (sn, its)"
proof (cases "opt_fetchPage opts (cursor st) (world_before_fetch opts st)")
  case (Pair page w2)
  show ?thesis
  proof (cases page)
    case (PageOk xs pc)
    obtain sn its where "add_items (opt_getKey opts) xs (seen st, items st) = (sn, its)"
      by (cases "add_items (opt_getKey opts) xs (seen st, items st)")
    with Pair PageOk ok show ?thesis by blast
  next
    case (PageFail e)
    with Pair fail show ?thesis by blast
  qed
qed

lemma encountered_events_with_fetch [simp]:
  "encountered (events_with_fetch opts st page) = encountered (events st) @ event_items (Fetched (cursor st) page)"
  by (simp add: events_with_fetch_def encountered_def)

lemma fetch_count_events_with_fetch [simp]:
  "fetch_count (events_with_fetch opts st page) = fetch_count (events st) + 1"
  by (simp add: events_with_fetch_def fetch_count_def)

lemma last_events_with_fetch [simp]:
  "last (events_with_fetch opts st page) = Fetched (cursor st) page"
  "events_with_fetch opts st page \<noteq> []"
  by (simp_all add: events_with_fetch_def)

lemma items_inv_initial: "items_inv opts (initial_state opts w)"
  by (simp add: items_inv_def initial_state_def)

lemma items_inv_step:
  assumes "items_inv opts st" "loop_body opts st = Inr st'"
  shows "items_inv opts st'"
proof (cases rule: loop_body_cases[of opts st])
  case (fail e w2)
  from loop_body_fail[OF fail] assms(2) show ?thesis by simp
next
  case (ok xs pc w2 sn its)
  from assms(1) have a: "seen st = opt_getKey opts ` set (items st)"
    and b: "items st = first_occurrences (opt_getKey opts) (encountered (events st))"
    by (simp_all add: items_inv_def)
  from add_items_first_occurrences[OF a b ok(2)]
  have c: "sn = opt_getKey opts ` set its"
    "its = first_occurrences (opt_getKey opts) (encountered (events st) @ xs)" by simp_all
  from loop_body_ok[OF ok] assms(2)
  have "st' = \<lparr>seen = sn, items = its, cursor = pc, pagesFetched = pagesFetched st + 1,
                world = w2, events = events_with_fetch opts st (PageOk xs pc)\<rparr>"
    by (simp split: if_splits)
  with c show ?thesis by (simp add: items_inv_def)
qed

lemma items_inv_stop:
  assumes "items_inv opts st" "loop_body opts st = Inl r" "returned_items (result r) = Some ys"
  shows "ys = first_occurrences (opt_getKey opts) (encountered (run_events r))"
proof (cases rule: loop_body_cases[of opts st])
  case (fail e w2)
  from loop_body_fail[OF fail] assms(2,3) have "items st \<noteq> []" "ys = items st"
    "run_events r = events_with_fetch opts st (PageFail e)"
    by (auto split: if_splits)
  with assms(1) show ?thesis by (simp add: items_inv_def)
next
  case (ok xs pc w2 sn its)
  from assms(1) have a: "seen st = opt_getKey opts ` set (items st)"
    and b: "items st = first_occurrences (opt_getKey opts) (encountered (events st))"
    by (simp_all add: items_inv_def)
  from add_items_first_occurrences[OF a b ok(2)]
  have c: "its = first_occurrences (opt_getKey opts) (encountered (events st) @ xs)" by simp
  from loop_body_ok[OF ok] assms(2,3)
  have "ys = its" "run_events r = events_with_fetch opts st (PageOk xs pc)"
    by (auto split: if_splits)
  with c show ?thesis by simp
qed

lemma paginate_loop_first_occurrences:
  assumes "paginate_loop opts st = Some r" "items_inv opts st"
    "returned_items (result r) = Some ys"
  shows "ys = first_occurrences (opt_getKey opts) (encountered (run_events r))"
proof -
  have "\<forall>ys. returned_items (result r) = Some ys \<longrightarrow>
      ys = first_occurrences (opt_getKey opts) (encountered (run_events r))"
  proof (rule paginate_loop_rule[OF assms(1), where I = "items_inv opts"])
    show "items_inv opts st" by (rule assms(2))
  next
    fix s s' assume "items_inv opts s" "loop_body opts s = Inr s'"
    then show "items_inv opts s'" by (rule items_inv_step)
  next
    fix s q assume "items_inv opts s" "loop_body opts s = Inl q"
    then show "\<forall>ys. returned_items (result q) = Some ys \<longrightarrow>
      ys = first_occurrences (opt_getKey opts) (encountered (run_events q))"
      using items_inv_stop by blast
  qed
  with assms(3) show ?thesis by blast
qed

subsection \<open>The states a run passes through\<close>

lemma state_after_run:
  "state_after n opts w = Some st \<Longrightarrow> paginateCursor opts w = paginate_loop opts st"
proof (induction n arbitrary: st)
  case 0
  then show ?case by (simp add: paginateCursor_def)
next
  case (Suc n)
  from Suc.prems obtain s where s: "state_after n opts w = Some s"
    and b: "loop_body opts s = Inr st"
    by (auto split: option.splits sum.splits)
  have "paginate_loop opts s = paginate_loop opts st"
    by (subst paginate_loop.simps) (simp add: b)
  with Suc.IH[OF s] show ?case by simp
qed

lemma state_after_items_inv:
  "state_after n opts w = Some st \<Longrightarrow> items_inv opts st"
proof (induction n arbitrary: st)
  case 0
  then show ?case using items_inv_initial[of opts w] by simp
next
  case (Suc n)
  from Suc.prems obtain s where s: "state_after n opts w = Some s"
    and b: "loop_body opts s = Inr st"
    by (auto split: option.splits sum.splits)
  from items_inv_step[OF Suc.IH[OF s] b] show ?case .
qed


subsection \<open>Counting the fetches\<close>

lemma count_inv_initial: "count_inv opts (initial_state opts w)"
  by (simp add: count_inv_def initial_state_def)

lemma count_inv_step:
  assumes "count_inv opts st" "loop_body opts st = Inr st'"
  shows "count_inv opts st'"
proof (cases rule: loop_body_cases[of opts st])
  case (fail e w2)
  from loop_body_fail[OF fail] assms(2) show ?thesis by simp
next
  case (ok xs pc w2 sn its)
  from loop_body_ok[OF ok] assms(2)
  have "st' = \<lparr>seen = sn, items = its, cursor = pc, pagesFetched = pagesFetched st + 1,
                world = w2, events = events_with_fetch opts st (PageOk xs pc)\<rparr>"
    and "\<not> limit_reached (opt_maxPages opts) (pagesFetched st + 1)"
    by (simp_all split: if_splits)
  with assms(1) show ?thesis by (simp add: count_inv_def)
qed

lemma count_inv_stop:
  assumes "count_inv opts st" "loop_body opts st = Inl r"
  shows "stop_reason opts r \<and> fetch_count (run_events r) = pagesFetched st + 1"
proof (cases rule: loop_body_cases[of opts st])
  case (fail e w2)
  from loop_body_fail[OF fail] assms show ?thesis
    by (auto simp: stop_reason_def count_inv_def)
next
  case (ok xs pc w2 sn its)
  from loop_body_ok[OF ok] assms show ?thesis
    by (auto simp: stop_reason_def count_inv_def split: if_splits)
qed


lemma loop_body_continue_count:
  assumes "loop_body opts st = Inr st'"
  shows "pagesFetched st' = pagesFetched st + 1"
proof (cases rule: loop_body_cases[of opts st])
  case (fail e w2)
  from loop_body_fail[OF fail] assms show ?thesis by simp
next
  case (ok xs pc w2 sn its)
  from loop_body_ok[OF ok] assms show ?thesis by (auto split: if_splits)
qed

lemma paginate_loop_fetches_more:
  assumes "paginate_loop opts st = Some r" "count_inv opts st" "n \<le> pagesFetched st"
  shows "n + 1 \<le> fetch_count (run_events r)"
proof (rule paginate_loop_rule[OF assms(1), where I = "\<lambda>s. count_inv opts s \<and> n \<le> pagesFetched s"])
  show "count_inv opts st \<and> n \<le> pagesFetched st" using assms(2,3) by simp
next
  fix s s' assume "count_inv opts s \<and> n \<le> pagesFetched s" "loop_body opts s = Inr s'"
  then show "count_inv opts s' \<and> n \<le> pagesFetched s'"
    using count_inv_step[of opts s s'] loop_body_continue_count[of opts s s'] by simp
next
  fix s q assume "count_inv opts s \<and> n \<le> pagesFetched s" "loop_body opts s = Inl q"
  then show "n + 1 \<le> fetch_count (run_events q)"
    using count_inv_stop[of opts s q] by simp
qed



lemma state_after_count:
  "state_after n opts w = Some st \<Longrightarrow> pagesFetched st = n \<and> count_inv opts st"
proof (induction n arbitrary: st)
  case 0
  then show ?case using count_inv_initial[of opts w] by (auto simp: initial_state_def)
next
  case (Suc n)
  from Suc.prems obtain s where s: "state_after n opts w = Some s"
    and b: "loop_body opts s = Inr st"
    by (auto split: option.splits sum.splits)
  from Suc.IH[OF s] count_inv_step[OF _ b] loop_body_continue_count[OF b]
  show ?case by simp
qed





subsection \<open>Runs against the scripted servers\<close>

lemmas eval_paginate =
  paginateCursor_def initial_state_def paginate_loop.simps loop_body_def
  scripted_opts_def pageDelayMs_def cursor_absent_def limit_reached_def Let_def

lemma limit_run:
  "paginateCursor (scripted_opts limit_pages (Some 2)) () = Some limit_expected"
  by (simp add: eval_paginate limit_pages_def limit_expected_def)

lemma failing_run:
  "paginateCursor (scripted_opts failing_pages None) () = Some failing_expected"
  by (simp add: eval_paginate failing_pages_def failing_expected_def)

lemma failing_at_once_run:
  "paginateCursor (scripted_opts forbidden_pages None) () = Some failing_at_once_expected"
  by (simp add: eval_paginate failing_at_once_expected_def forbidden_pages_def)

lemma scenarioB_run:
  "paginateCursor (scripted_opts scenarioB_pages None) () = Some scenarioB_expected"
  by (simp add: eval_paginate scenarioB_pages_def scenarioB_expected_def)

lemma scenarioB_limited_run:
  "paginateCursor (scripted_opts scenarioB_pages (Some 2)) () = Some scenarioB_limited_expected"
  by (simp add: eval_paginate scenarioB_pages_def scenarioB_limited_expected_def)


lemma reserved_run:
  "paginateCursor (scripted_opts reserved_pages None) () = Some reserved_expected"
  by (simp add: eval_paginate reserved_pages_def reserved_expected_def)

lemma limit3_run:
  "paginateCursor (scripted_opts limit_pages (Some 3)) () = Some limit3_expected"
  by (simp add: eval_paginate limit_pages_def limit3_expected_def)


text \<open>The states these runs pass through.\<close>

lemmas eval_state =
  initial_state_def loop_body_def scripted_opts_def pageDelayMs_def cursor_absent_def
  limit_reached_def Let_def



lemma failing_state_reached:
  "state_after (Suc 0) (scripted_opts failing_pages None) () = Some failing_state"
  by (simp add: eval_state failing_pages_def failing_state_def)


section \<open>What the specification states about the paginator\<close>

text \<open>
  C1. The items a run of \<open>paginateCursor\<close> returns hold no identity key twice and stand in
  first-encounter order. With the items of the fetched pages listed in the order of their
  encounter, the returned list is the list of first occurrences: it holds exactly the
  items at those positions of the encounter that no earlier position shares its key with,
  in the order of the positions. So each item stands where it was first met, and a later
  item with its key, equal or not, neither replaces it nor moves it.
\<close>

theorem paginateCursor_first_encounter:
  assumes "paginateCursor opts w = Some r"
    and "returned_items (result r) = Some its"
  shows "distinct (map (opt_getKey opts) its) \<and>
         its = first_occurrences (opt_getKey opts) (encountered (run_events r)) \<and>
         its = map ((!) (encountered (run_events r)))
                 (filter (\<lambda>i. opt_getKey opts (encountered (run_events r) ! i)
                                \<notin> opt_getKey opts ` set (take i (encountered (run_events r))))
                    [0..<length (encountered (run_events r))])"
proof -
  have eq: "its = first_occurrences (opt_getKey opts) (encountered (run_events r))"
    using paginate_loop_first_occurrences
      [OF assms(1)[unfolded paginateCursor_def] items_inv_initial assms(2)] .
  have d: "distinct (map (opt_getKey opts) its)"
    unfolding eq by (rule first_occurrences_distinct)
  have p: "its = map ((!) (encountered (run_events r)))
                 (filter (\<lambda>i. opt_getKey opts (encountered (run_events r) ! i)
                                \<notin> opt_getKey opts ` set (take i (encountered (run_events r))))
                    [0..<length (encountered (run_events r))])"
    unfolding eq by (rule first_occurrences_positions)
  show ?thesis by (intro conjI) (rule d, rule eq, rule p)
qed

theorem paginateCursor_first_encounter_witness:
  "paginateCursor (scripted_opts reserved_pages None) () = Some reserved_expected \<and>
   returned_items (result reserved_expected) =
     Some [(''a'', ''first''), (''b'', ''second''), (''c'', ''third'')] \<and>
   encountered (run_events reserved_expected) =
     [(''a'', ''first''), (''b'', ''second''),
      (''a'', ''first''), (''b'', ''changed''), (''c'', ''third'')] \<and>
   distinct (map fst [(''a'', ''first''), (''b'', ''second''), (''c'', ''third'')]) \<and>
   [(''a'', ''first''), (''b'', ''second''), (''c'', ''third'')] =
     first_occurrences fst
       [(''a'', ''first''), (''b'', ''second''),
        (''a'', ''first''), (''b'', ''changed''), (''c'', ''third'')]"
proof -
  let ?its = "[(''a'', ''first''), (''b'', ''second''), (''c'', ''third'')]"
  have its: "returned_items (result reserved_expected) = Some ?its"
    by (simp add: reserved_expected_def)
  have enc: "encountered (run_events reserved_expected) =
     [(''a'', ''first''), (''b'', ''second''),
      (''a'', ''first''), (''b'', ''changed''), (''c'', ''third'')]"
    by (simp add: reserved_expected_def encountered_def reserved_pages_def)
  have k: "opt_getKey (scripted_opts reserved_pages None) = fst"
    by (simp add: scripted_opts_def)
  note t = paginateCursor_first_encounter[OF reserved_run its, unfolded k]
  have d: "distinct (map fst ?its)" using t by (rule conjunct1)
  have f: "?its = first_occurrences fst (encountered (run_events reserved_expected))"
    using t[THEN conjunct2] by (rule conjunct1)
  show ?thesis using reserved_run its enc d f[unfolded enc] by (intro conjI)
qed




text \<open>
  C3 (as stated, it fails). In scenario B the second page delivers only the known tweet
  but a fresh cursor \<open>p3\<close>. The paginator has no check on whether a page added items: it
  goes on and fetches a third page with \<open>p3\<close>. Against a server that then answers with a
  new tweet and no cursor, the run makes three fetches and returns two items.
\<close>

theorem paginateCursor_scenarioB_counterexample:
  "scenarioB_pages None = PageOk [(''dup'', ''Duplicate'')] (Some ''p2'') \<and>
   scenarioB_pages (Some ''p2'') = PageOk [(''dup'', ''Duplicate'')] (Some ''p3'') \<and>
   paginateCursor (scripted_opts scenarioB_pages None) () = Some scenarioB_expected \<and>
   result scenarioB_expected \<noteq> ResultOk [(''dup'', ''Duplicate'')] None \<and>
   result scenarioB_expected = ResultOk [(''dup'', ''Duplicate''), (''fresh'', ''Fresh'')] None \<and>
   fetch_count (run_events scenarioB_expected) = 3"
  using scenarioB_run
  by (simp add: scenarioB_pages_def scenarioB_expected_def fetch_count_def)

text \<open>
  C3 (amended). In scenario B, started without a cursor and with no page limit below two:
  after page 2 the accumulated items are the one tweet \<open>dup\<close>. With the page limit 2 the
  run returns success with these items and the fresh cursor \<open>p3\<close> of page 2 as next
  cursor, after two fetches. Otherwise the run does not stop after page 2: the loop goes
  on from the cursor \<open>p3\<close>, and a run that returns has made at least three fetches.
\<close>

theorem paginateCursor_duplicate_page_fresh_cursor:
  assumes start: "opt_cursor opts = None"
    and page1: "opt_fetchPage opts None w = (PageOk [d] (Some p2), w1)"
    and page2: "opt_fetchPage opts (Some p2)
                  (if 0 < pageDelayMs opts then opt_sleep opts (pageDelayMs opts) w1 else w1) =
                (PageOk [d] (Some p3), w2)"
    and cursors: "p2 \<noteq> [] \<and> p3 \<noteq> [] \<and> p3 \<noteq> p2"
    and limit: "case opt_maxPages opts of None \<Rightarrow> True | Some m \<Rightarrow> 2 \<le> m"
    and evs: "evs = [Fetched None (PageOk [d] (Some p2))] @
                    (if 0 < pageDelayMs opts then [Slept (pageDelayMs opts)] else []) @
                    [Fetched (Some p2) (PageOk [d] (Some p3))]"
  shows "(opt_maxPages opts = Some 2 \<longrightarrow>
            paginateCursor opts w =
              Some \<lparr>result = ResultOk [d] (Some p3), final_world = w2, run_events = evs\<rparr>) \<and>
         (opt_maxPages opts \<noteq> Some 2 \<longrightarrow>
            paginateCursor opts w =
              paginate_loop opts
                \<lparr>seen = {opt_getKey opts d}, items = [d], cursor = Some p3, pagesFetched = 2,
                 world = w2, events = evs\<rparr> \<and>
            (\<forall>r. paginateCursor opts w = Some r \<longrightarrow> 3 \<le> fetch_count (run_events r)))"
proof -
  let ?st1 = "\<lparr>seen = {opt_getKey opts d}, items = [d], cursor = Some p2, pagesFetched = 1,
               world = w1, events = [Fetched None (PageOk [d] (Some p2))]\<rparr>"
  let ?st2 = "\<lparr>seen = {opt_getKey opts d}, items = [d], cursor = Some p3, pagesFetched = 2,
               world = w2, events = evs\<rparr>"
  have l1: "\<not> limit_reached (opt_maxPages opts) (Suc 0)"
    using limit by (simp add: limit_reached_def split: option.splits)
  have l2: "limit_reached (opt_maxPages opts) 2 \<longleftrightarrow> opt_maxPages opts = Some 2"
    using limit by (auto simp: limit_reached_def split: option.splits)
  have l2': "limit_reached (opt_maxPages opts) (Suc (Suc 0)) \<longleftrightarrow> opt_maxPages opts = Some 2"
    using l2 by (simp add: numeral_2_eq_2)
  have b1: "loop_body opts (initial_state opts w) = Inr ?st1"
    using start page1 cursors l1
    by (simp add: loop_body_def initial_state_def Let_def cursor_absent_def)
  have wb: "world_before_fetch opts ?st1 =
      (if 0 < pageDelayMs opts then opt_sleep opts (pageDelayMs opts) w1 else w1)"
    by (simp add: world_before_fetch_def slept_def)
  have ev: "events_with_fetch opts ?st1 (PageOk [d] (Some p3)) = evs"
    using evs by (simp add: events_with_fetch_def slept_def)
  have f2: "opt_fetchPage opts (cursor ?st1) (world_before_fetch opts ?st1) =
      (PageOk [d] (Some p3), w2)"
    using page2 unfolding wb by simp
  have a2: "add_items (opt_getKey opts) [d] (seen ?st1, items ?st1) = ({opt_getKey opts d}, [d])"
    by simp
  have b2: "loop_body opts ?st1 =
      (if opt_maxPages opts = Some 2
       then Inl \<lparr>result = ResultOk [d] (Some p3), final_world = w2, run_events = evs\<rparr>
       else Inr ?st2)"
    unfolding loop_body_ok[OF f2 a2] ev using cursors l2'
    by (simp add: cursor_absent_def)
  have p1: "paginateCursor opts w = paginate_loop opts ?st1"
    unfolding paginateCursor_def by (subst paginate_loop.simps, simp only: b1) simp
  have p2: "paginate_loop opts ?st1 =
      (if opt_maxPages opts = Some 2
       then Some \<lparr>result = ResultOk [d] (Some p3), final_world = w2, run_events = evs\<rparr>
       else paginate_loop opts ?st2)"
    by (subst paginate_loop.simps, simp only: b2) simp
  have more: "3 \<le> fetch_count (run_events r)"
    if "opt_maxPages opts \<noteq> Some 2" "paginateCursor opts w = Some r" for r
  proof -
    from that p1 p2 have run: "paginate_loop opts ?st2 = Some r" by simp
    have "fetch_count evs = 2" using evs by (simp add: fetch_count_def)
    then have inv: "count_inv opts ?st2"
      using l2 that(1) by (simp add: count_inv_def)
    from paginate_loop_fetches_more[OF run inv, of 2] show ?thesis by simp
  qed
  show ?thesis using p1 p2 more by simp
qed

theorem paginateCursor_duplicate_page_fresh_cursor_witness:
  "opt_maxPages (scripted_opts scenarioB_pages (Some 2)) = Some 2 \<and>
   paginateCursor (scripted_opts scenarioB_pages (Some 2)) () =
     Some \<lparr>result = ResultOk [(''dup'', ''Duplicate'')] (Some ''p3''), final_world = (),
           run_events = [Fetched None (PageOk [(''dup'', ''Duplicate'')] (Some ''p2'')),
                         Slept 1000,
                         Fetched (Some ''p2'') (PageOk [(''dup'', ''Duplicate'')] (Some ''p3''))]\<rparr> \<and>
   opt_maxPages (scripted_opts scenarioB_pages None) \<noteq> Some 2 \<and>
   paginateCursor (scripted_opts scenarioB_pages None) () = Some scenarioB_expected \<and>
   3 \<le> fetch_count (run_events scenarioB_expected)"
proof -
  let ?d = "(''dup'', ''Duplicate'')"
  let ?evs = "[Fetched None (PageOk [?d] (Some ''p2'')), Slept 1000,
               Fetched (Some ''p2'') (PageOk [?d] (Some ''p3''))]"
  have a: "paginateCursor (scripted_opts scenarioB_pages (Some 2)) () =
     Some \<lparr>result = ResultOk [?d] (Some ''p3''), final_world = (), run_events = ?evs\<rparr>"
    using paginateCursor_duplicate_page_fresh_cursor
      [of "scripted_opts scenarioB_pages (Some 2)" "()" ?d "''p2''" "()" "''p3''" "()" ?evs]
    by (simp add: scripted_opts_def scenarioB_pages_def pageDelayMs_def)
  have b: "3 \<le> fetch_count (run_events scenarioB_expected)"
    using paginateCursor_duplicate_page_fresh_cursor
      [of "scripted_opts scenarioB_pages None" "()" ?d "''p2''" "()" "''p3''" "()" ?evs]
      scenarioB_run
    by (simp add: scripted_opts_def scenarioB_pages_def pageDelayMs_def)
  show ?thesis using a b scenarioB_run by (simp add: scripted_opts_def)
qed

text \<open>
  C4. When a page fetch fails, the call returns at once. If at least one item has been
  accumulated by then (\<open>items\<close>, the first occurrences among the items of the pages fetched
  before), the result is a failure with the error of the page, these items, and as next
  cursor the cursor that was used for the failing fetch. If nothing has been accumulated,
  the result is the failure of the page as it is, with no items and no next cursor. Here
  \<open>st\<close> is the state in which the run makes its fetch number \<open>n + 1\<close>.
\<close>

theorem paginateCursor_page_failure:
  assumes "state_after n opts w = Some st"
    and "opt_fetchPage opts (cursor st)
           (if 0 < n \<and> 0 < pageDelayMs opts
            then opt_sleep opts (pageDelayMs opts) (world st) else world st) = (PageFail e, w2)"
  shows "items st = first_occurrences (opt_getKey opts) (encountered (events st)) \<and>
         fetch_count (events st) = n \<and>
         paginateCursor opts w =
           Some \<lparr>result = (if items st \<noteq> []
                           then ResultFail e (Some (items st)) (cursor st)
                           else ResultFail e None None),
                 final_world = w2,
                 run_events = events st @
                   (if 0 < n \<and> 0 < pageDelayMs opts then [Slept (pageDelayMs opts)] else []) @
                   [Fetched (cursor st) (PageFail e)]\<rparr>"
proof -
  from state_after_count[OF assms(1)] have n: "pagesFetched st = n"
    and c: "fetch_count (events st) = n" by (simp_all add: count_inv_def)
  from state_after_items_inv[OF assms(1)]
  have i: "items st = first_occurrences (opt_getKey opts) (encountered (events st))"
    by (simp add: items_inv_def)
  have f: "opt_fetchPage opts (cursor st) (world_before_fetch opts st) = (PageFail e, w2)"
    using assms(2) n by (simp add: world_before_fetch_def slept_def)
  have ev: "events_with_fetch opts st (PageFail e) = events st @
                   (if 0 < n \<and> 0 < pageDelayMs opts then [Slept (pageDelayMs opts)] else []) @
                   [Fetched (cursor st) (PageFail e)]"
    using n by (simp add: events_with_fetch_def slept_def)
  have r: "paginate_loop opts st =
           Some \<lparr>result = (if items st \<noteq> []
                           then ResultFail e (Some (items st)) (cursor st)
                           else ResultFail e None None),
                 final_world = w2,
                 run_events = events_with_fetch opts st (PageFail e)\<rparr>"
    by (subst paginate_loop.simps) (simp add: loop_body_fail[OF f])
  show ?thesis
    unfolding state_after_run[OF assms(1)] r ev by (intro conjI) (rule i, rule c, rule refl)
qed

theorem paginateCursor_page_failure_witness:
  "state_after (Suc 0) (scripted_opts failing_pages None) () = Some failing_state \<and>
   items failing_state = [(''tweet1'', ''Page 1'')] \<and>
   cursor failing_state = Some ''cursor-page-2'' \<and>
   paginateCursor (scripted_opts failing_pages None) () =
     Some \<lparr>result = ResultFail ''HTTP 500: Internal Server Error''
                      (Some [(''tweet1'', ''Page 1'')]) (Some ''cursor-page-2''),
           final_world = (),
           run_events = [Fetched None (failing_pages None), Slept 1000,
                         Fetched (Some ''cursor-page-2'')
                           (PageFail ''HTTP 500: Internal Server Error'')]\<rparr> \<and>
   state_after 0 (scripted_opts forbidden_pages None) () =
     Some (initial_state (scripted_opts forbidden_pages None) ()) \<and>
   paginateCursor (scripted_opts forbidden_pages None) () =
     Some \<lparr>result = ResultFail ''HTTP 403: Forbidden'' None None, final_world = (),
           run_events = [Fetched None (PageFail ''HTTP 403: Forbidden'')]\<rparr>"
proof -
  let ?o1 = "scripted_opts failing_pages None"
  let ?o2 = "scripted_opts forbidden_pages None"
  have f1: "opt_fetchPage ?o1 (cursor failing_state)
           (if 0 < Suc 0 \<and> 0 < pageDelayMs ?o1
            then opt_sleep ?o1 (pageDelayMs ?o1) (world failing_state) else world failing_state) =
         (PageFail ''HTTP 500: Internal Server Error'', ())"
    by (simp add: scripted_opts_def failing_state_def failing_pages_def)
  have a: "paginateCursor ?o1 () =
     Some \<lparr>result = ResultFail ''HTTP 500: Internal Server Error''
                      (Some [(''tweet1'', ''Page 1'')]) (Some ''cursor-page-2''),
           final_world = (),
           run_events = [Fetched None (failing_pages None), Slept 1000,
                         Fetched (Some ''cursor-page-2'')
                           (PageFail ''HTTP 500: Internal Server Error'')]\<rparr>"
    using paginateCursor_page_failure[OF failing_state_reached f1]
    by (simp add: failing_state_def scripted_opts_def pageDelayMs_def)
  have s0: "state_after 0 ?o2 () = Some (initial_state ?o2 ())" by simp
  have f2: "opt_fetchPage ?o2 (cursor (initial_state ?o2 ()))
           (if 0 < (0::nat) \<and> 0 < pageDelayMs ?o2
            then opt_sleep ?o2 (pageDelayMs ?o2) (world (initial_state ?o2 ()))
            else world (initial_state ?o2 ())) =
         (PageFail ''HTTP 403: Forbidden'', ())"
    by (simp add: scripted_opts_def initial_state_def forbidden_pages_def)
  have b: "paginateCursor ?o2 () =
     Some \<lparr>result = ResultFail ''HTTP 403: Forbidden'' None None, final_world = (),
           run_events = [Fetched None (PageFail ''HTTP 403: Forbidden'')]\<rparr>"
    using paginateCursor_page_failure[OF s0 f2]
    by (simp add: initial_state_def scripted_opts_def)
  show ?thesis
    using failing_state_reached a s0 b by (simp add: failing_state_def)
qed


section \<open>Properties of the client operations\<close>

lemma resolve_unchanged: "resolve env operationName s = (fst (resolve env operationName s), s)"
  by (simp add: resolve_def getQueryId_def runtime_getQueryId_def)

lemma resolve_eq:
  "resolve env operationName s =
     ((case net_cache s operationName of None \<Rightarrow> QUERY_IDS env operationName | Some q \<Rightarrow> q), s)"
  by (simp add: resolve_def getQueryId_def runtime_getQueryId_def)

lemma fetchWithTimeout_log:
  assumes "fetchWithTimeout env c req s = (out, s')"
  shows "net_log s' = net_log s @ [with_timeout c req]" and "net_cache s' = net_cache s"
  using assms by (auto simp: fetchWithTimeout_def split: prod.splits)

lemma refreshQueryIds_log: "net_log (refreshQueryIds env s) = net_log s"
  by (simp add: refreshQueryIds_def split: prod.splits sum.splits)

lemma ensureClientUserId_cookies:
  assumes "ensureClientUserId env c s = (c', s')"
  shows "authToken c' = authToken c \<and> ct0 c' = ct0 c"
  using assms by (auto simp: ensureClientUserId_def Let_def split: if_splits prod.splits)

lemma createTweet_client:
  "fst (snd (createTweet env c0 variables s0)) = fst (ensureClientUserId env c0 s0)"
  by (simp add: createTweet_def Let_def split: prod.splits sum.splits)

lemma new_client_valid:
  "new_client (\<lambda>d. 1) ''uuid-1'' ''uuid-2'' valid_options = Inr test_client"
  by (simp add: new_client_def valid_options_def test_client_def falsy_def or_else_def Let_def)


subsection \<open>The retries after 404\<close>

lemma engagement_first_attempt:
  assumes "fetchWithTimeout env c
             (engagement_request (operation_url env (fst (resolve env op s0)) op) tid
                (fst (resolve env op s0))) s0 = (out1, s1)"
  shows "performEngagementMutation env c op tid s0 =
     (case out1 of
        Inl error \<Rightarrow> (Inr (MutationFailed (error_text error)), s1)
      | Inr response \<Rightarrow>
          if resp_status response = 404 then
            (let s2 = refreshQueryIds env s1;
                 q2 = fst (resolve env op s2)
             in case fetchWithTimeout env c (engagement_request (operation_url env q2 op) tid q2) s2 of
                  (Inl error, s4) \<Rightarrow> (Inr (MutationFailed (error_text error)), s4)
                | (Inr response2, s4) \<Rightarrow>
                    if resp_status response2 = 404 then
                      (case fetchWithTimeout env c
                              (engagement_request (TWITTER_GRAPHQL_POST_URL env) tid q2) s4 of
                         (Inl error, s5) \<Rightarrow> (Inr (MutationFailed (error_text error)), s5)
                       | (Inr retry, s5) \<Rightarrow> (parseResponse retry, s5))
                    else (parseResponse response2, s4))
          else (parseResponse response, s1))"
proof -
  have r: "resolve env op s = (fst (resolve env op s), s)" for s
    by (rule resolve_unchanged)
  show ?thesis
    unfolding performEngagementMutation_def
    apply (subst r)
    apply (simp only: Let_def prod.case assms)
    apply (cases out1)
     apply simp
    apply (simp only: sum.case prod.case)
    apply (subst r)
    apply (simp only: Let_def prod.case)
    done
qed



lemma createTweet_first_attempt:
  assumes e: "ensureClientUserId env c0 s0 = (c, sa)"
    and f: "fetchWithTimeout env c
             (create_tweet_request (operation_url env (fst (resolve env ''CreateTweet'' sa)) ''CreateTweet'')
                variables (fst (resolve env ''CreateTweet'' sa))) sa = (out1, s1)"
  shows "createTweet env c0 variables s0 =
     (case out1 of
        Inl error \<Rightarrow> (TweetFailed (error_text error), c, s1)
      | Inr response \<Rightarrow>
          if resp_status response = 404 then
            (let s2 = refreshQueryIds env s1;
                 q2 = fst (resolve env ''CreateTweet'' s2)
             in case fetchWithTimeout env c
                       (create_tweet_request (operation_url env q2 ''CreateTweet'') variables q2) s2 of
                  (Inl error, s4) \<Rightarrow> (TweetFailed (error_text error), c, s4)
                | (Inr response2, s4) \<Rightarrow>
                    if resp_status response2 = 404 then
                      (case fetchWithTimeout env c
                              (create_tweet_request (TWITTER_GRAPHQL_POST_URL env) variables q2) s4 of
                         (Inl error, s5) \<Rightarrow> (TweetFailed (error_text error), c, s5)
                       | (Inr retry, s5) \<Rightarrow>
                           (let (r, s6) = handle_create_response env c variables retry s5
                            in (r, c, s6)))
                    else
                      (let (r, s5) = handle_create_response env c variables response2 s4
                       in (r, c, s5)))
          else
            (let (r, s2) = handle_create_response env c variables response s1
             in (r, c, s2)))"
proof -
  have r: "snd (resolve env op s) = s" for op s
    by (simp add: resolve_eq)
  show ?thesis
    using f by (cases out1) (simp_all add: createTweet_def e Let_def split_beta r cong: sum.case_cong if_cong)
qed



subsection \<open>The fallback to the legacy write\<close>

lemma postStatusUpdate_log:
  assumes "postStatusUpdate env c input s = (r, s1)"
  shows "net_log s1 = net_log s @ [with_timeout c (status_update_request env input)]"
proof -
  obtain out s' where f: "fetchWithTimeout env c (status_update_request env input) s = (out, s')"
    by (cases "fetchWithTimeout env c (status_update_request env input) s")
  from assms have "s1 = s'"
    unfolding postStatusUpdate_def f
    by (auto simp: Let_def split: sum.splits if_splits json_value.splits)
  with fetchWithTimeout_log(1)[OF f] show ?thesis by simp
qed

lemma handle_create_response_errors:
  assumes "resp_ok response" "resp_json response = Inr (JsonObject data)" "has_errors data"
  shows "handle_create_response env c variables response s =
     (if has_code_226 (errors_of data) \<and> tweet_text variables \<noteq> [] then
        (case postStatusUpdate env c (the (statusUpdateInputFromCreateTweetVariables variables)) s of
           (TweetOk tweetId, s1) \<Rightarrow> (TweetOk tweetId, s1)
         | (TweetFailed error, s1) \<Rightarrow>
             (TweetFailed (formatErrors (errors_of data) @ '' | fallback: '' @ error), s1))
      else (TweetFailed (formatErrors (errors_of data)), s))"
  using assms
  by (simp add: handle_create_response_def tryStatusUpdateFallback_def
      statusUpdateInputFromCreateTweetVariables_def split: prod.splits tweet_result.splits)


subsection \<open>Runs against the scripted network\<close>

lemmas eval_client =
  createTweet_def ensureClientUserId_def resolve_eq fetchWithTimeout_def
  with_timeout_def scripted_env_def scripted_fetch_def test_client_def start_def
  operation_url_def ok_json_def ok_null_def not_found_def ok_not_json_def
  handle_create_response_def has_errors_def errors_of_def
  errors_226_def legacy_created_def empty_body_def automated_error_def hello_def media_only_def
  tryStatusUpdateFallback_def has_code_226_def statusUpdateInputFromCreateTweetVariables_def
  postStatusUpdate_def status_update_request_def falsy_def
  like_def performEngagementMutation_def parseResponse_def refreshQueryIds_def
  extractTweetIdFromResponse_def verifyTweetByFetching_def


lemma like_404_200:
  "like scripted_env test_client ''1234567890''
     (start [Inr not_found, Inr (ok_json empty_body)]) =
   (Inr MutationOk,
    \<lparr>net_cache = Map.empty, net_world = [],
     net_log = [engagement_request ''https://x.com/i/api/graphql/default-id/FavoriteTweet''
                  ''1234567890'' ''default-id'',
                engagement_request ''https://x.com/i/api/graphql/default-id/FavoriteTweet''
                  ''1234567890'' ''default-id'']\<rparr>)"
  by (simp add: eval_client)

lemma like_not_json:
  "like scripted_env test_client ''1234567890'' (start [Inr ok_not_json]) =
     (Inl (Error ''Unexpected end of JSON input''),
      \<lparr>net_cache = Map.empty, net_world = [],
       net_log = [engagement_request ''https://x.com/i/api/graphql/default-id/FavoriteTweet''
                    ''1234567890'' ''default-id'']\<rparr>)"
  by (simp add: eval_client)

lemma tweet_226_fallback_run:
  "createTweet scripted_env test_client hello
     (start [Inr (ok_json errors_226), Inr (ok_json legacy_created)]) =
   (TweetOk ''999'', test_client,
    \<lparr>net_cache = Map.empty, net_world = [],
     net_log = [create_tweet_request ''https://x.com/i/api/graphql/default-id/CreateTweet'' hello ''default-id'',
                status_update_request scripted_env
                  \<lparr>input_text = ''Hello'', input_inReplyToTweetId = None, input_mediaIds = None\<rparr>]\<rparr>)"
  by (simp add: eval_client)

lemma tweet_226_media_only_run:
  "createTweet scripted_env test_client media_only
     (start [Inr (ok_json errors_226), Inr (ok_json legacy_created)]) =
   (TweetFailed ''This request looks like it might be automated. (226)'', test_client,
    \<lparr>net_cache = Map.empty, net_world = [Inr (ok_json legacy_created)],
     net_log = [create_tweet_request ''https://x.com/i/api/graphql/default-id/CreateTweet''
                  media_only ''default-id'']\<rparr>)"
  by (simp add: eval_client formatErrors_def format_error_def)


lemma scripted_fetch_step:
  "fetchWithTimeout scripted_env test_client req (state_of (out # rest) reqs) =
     (out, state_of rest (reqs @ [req]))"
  by (simp add: fetchWithTimeout_def with_timeout_def scripted_env_def scripted_fetch_def
      test_client_def state_of_def)

lemma scripted_refresh: "refreshQueryIds scripted_env s = s"
  by (simp add: refreshQueryIds_def scripted_env_def)


lemma scripted_ensure: "ensureClientUserId scripted_env c s = (c, s)"
  by (simp add: ensureClientUserId_def scripted_env_def)

lemma scripted_urls:
  "operation_url scripted_env ''default-id'' ''FavoriteTweet'' =
     ''https://x.com/i/api/graphql/default-id/FavoriteTweet''"
  "operation_url scripted_env ''default-id'' ''CreateTweet'' =
     ''https://x.com/i/api/graphql/default-id/CreateTweet''"
  "TWITTER_GRAPHQL_POST_URL scripted_env = ''https://x.com/i/api/graphql''"
  by (simp_all add: operation_url_def scripted_env_def)



lemma createTweet_direct:
  assumes e: "ensureClientUserId env c0 s0 = (c, sa)"
    and first: "fetchWithTimeout env c
             (create_tweet_request (operation_url env (fst (resolve env ''CreateTweet'' sa)) ''CreateTweet'')
                variables (fst (resolve env ''CreateTweet'' sa))) sa = (Inr response, s)"
    and status: "resp_status response \<noteq> 404"
  shows "createTweet env c0 variables s0 =
     (fst (handle_create_response env c variables response s), c,
      snd (handle_create_response env c variables response s))"
  unfolding createTweet_first_attempt[OF e first] using status
  by (simp add: split_beta)


subsection \<open>Rejections of \<open>fetch\<close> are caught\<close>

lemma performEngagementMutation_fetch_rejects:
  assumes "fetchWithTimeout env c
             (engagement_request (operation_url env (fst (resolve env op s0)) op) tid
                (fst (resolve env op s0))) s0 = (Inl error, s1)"
  shows "performEngagementMutation env c op tid s0 = (Inr (MutationFailed (error_text error)), s1)"
  unfolding engagement_first_attempt[OF assms] by simp

lemma createTweet_fetch_rejects:
  assumes "ensureClientUserId env c0 s0 = (c, sa)"
    and "fetchWithTimeout env c
             (create_tweet_request (operation_url env (fst (resolve env ''CreateTweet'' sa)) ''CreateTweet'')
                variables (fst (resolve env ''CreateTweet'' sa))) sa = (Inl error, s1)"
  shows "createTweet env c0 variables s0 = (TweetFailed (error_text error), c, s1)"
  unfolding createTweet_first_attempt[OF assms] by simp

lemma like_network_error:
  "like scripted_env test_client ''1234567890'' (state_of [Inl (Error ''Network error'')] []) =
     (Inr (MutationFailed ''Network error''), state_of [] [like_request])"
  by (simp add: eval_client state_of_def like_request_def engagement_request_def)


subsection \<open>The requests a call of \<open>createTweet\<close> makes\<close>

lemma with_timeout_body [simp]: "req_body (with_timeout c req) = req_body req"
  by (simp add: with_timeout_def split: option.splits)

lemma request_kinds [simp]:
  "is_create_tweet_request (with_timeout c (create_tweet_request url variables q))"
  "\<not> is_legacy_write (with_timeout c (create_tweet_request url variables q))"
  "\<not> is_create_tweet_request (with_timeout c (status_update_request env input))"
  "is_legacy_write (with_timeout c (status_update_request env input))"
  "\<not> is_create_tweet_request (with_timeout c (user_tweets_request env q))"
  "\<not> is_legacy_write (with_timeout c (user_tweets_request env q))"
  by (simp_all add: is_create_tweet_request_def is_legacy_write_def create_tweet_request_def
      status_update_request_def user_tweets_request_def)

lemma sleep_log [simp]: "net_log (sleep env ms s) = net_log s"
  by (simp add: sleep_def)

lemma resolve_snd [simp]: "snd (resolve env op s) = s"
  by (simp add: resolve_eq)

lemma fetchWithTimeout_log_snd [simp]:
  "net_log (snd (fetchWithTimeout env c req s)) = net_log s @ [with_timeout c req]"
  by (simp add: fetchWithTimeout_def split: prod.splits)

lemma createTweet_settled:
  assumes e: "ensureClientUserId env c0 s0 = (c, sa)"
  shows "createTweet env c0 variables s0 =
     (case settled_response env c variables sa of
        (Inl error, s) \<Rightarrow> (TweetFailed (error_text error), c, s)
      | (Inr response, s) \<Rightarrow>
          (fst (handle_create_response env c variables response s), c,
           snd (handle_create_response env c variables response s)))"
  by (simp add: createTweet_def settled_response_def e Let_def split_beta
      split: prod.splits sum.splits)

lemma settled_response_log:
  assumes "settled_response env c variables sa = (out, s)"
  shows "\<exists>reqs. net_log s = net_log sa @ reqs \<and> list_all is_create_tweet_request reqs \<and>
           1 \<le> length reqs \<and> length reqs \<le> 3"
proof -
  obtain q where q: "resolve env ''CreateTweet'' sa = (q, sa)"
    using resolve_unchanged[of env "''CreateTweet''" sa] by metis
  obtain out1 s1 where f1: "fetchWithTimeout env c
      (create_tweet_request (operation_url env q ''CreateTweet'') variables q) sa = (out1, s1)"
    by (cases "fetchWithTimeout env c
      (create_tweet_request (operation_url env q ''CreateTweet'') variables q) sa")
  note l1 = fetchWithTimeout_log(1)[OF f1]
  obtain q2 where q2: "resolve env ''CreateTweet'' (refreshQueryIds env s1) = (q2, refreshQueryIds env s1)"
    using resolve_unchanged[of env "''CreateTweet''" "refreshQueryIds env s1"] by metis
  obtain out2 s2 where f2: "fetchWithTimeout env c
      (create_tweet_request (operation_url env q2 ''CreateTweet'') variables q2)
      (refreshQueryIds env s1) = (out2, s2)"
    by (cases "fetchWithTimeout env c
      (create_tweet_request (operation_url env q2 ''CreateTweet'') variables q2)
      (refreshQueryIds env s1)")
  note l2 = fetchWithTimeout_log(1)[OF f2]
  obtain out3 s3 where f3: "fetchWithTimeout env c
      (create_tweet_request (TWITTER_GRAPHQL_POST_URL env) variables q2) s2 = (out3, s3)"
    by (cases "fetchWithTimeout env c
      (create_tweet_request (TWITTER_GRAPHQL_POST_URL env) variables q2) s2")
  note l3 = fetchWithTimeout_log(1)[OF f3]
  from assms have "s = s1 \<or> s = s2 \<or> s = s3"
    unfolding settled_response_def q
    by (auto simp: f1 q2 f2 f3 Let_def split: sum.splits if_splits)
  then show ?thesis
    using l1 l2 l3 by (auto simp: refreshQueryIds_log)
qed

lemma settled_response_kinds:
  assumes "settled_response env c variables sa = (out, s)"
  shows "legacy_writes (net_log s) = legacy_writes (net_log sa)"
proof -
  from settled_response_log[OF assms] obtain reqs where
    r: "net_log s = net_log sa @ reqs" "list_all is_create_tweet_request reqs" by blast
  have "filter is_legacy_write reqs = []"
    using r(2) by (induction reqs)
      (auto simp: is_create_tweet_request_def is_legacy_write_def split: request_body.splits)
  with r(1) show ?thesis by (simp add: legacy_writes_def)
qed

lemma verifyTweetByFetching_log:
  "legacy_writes (net_log (snd (verifyTweetByFetching env c text s))) = legacy_writes (net_log s)"
  "create_tweet_requests (net_log (snd (verifyTweetByFetching env c text s))) =
     create_tweet_requests (net_log s)"
proof -
  obtain q where q: "resolve env ''UserTweets'' (sleep env 1500 s) = (q, sleep env 1500 s)"
    using resolve_unchanged[of env "''UserTweets''" "sleep env 1500 s"] by metis
  obtain out1 s1 where f1: "fetchWithTimeout env c (user_tweets_request env q)
      (sleep env 1500 s) = (out1, s1)"
    by (cases "fetchWithTimeout env c (user_tweets_request env q) (sleep env 1500 s)")
  note l1 = fetchWithTimeout_log(1)[OF f1]
  obtain out2 s2 where f2: "fetchWithTimeout env c (user_tweets_request env q)
      (sleep env 1500 s1) = (out2, s2)"
    by (cases "fetchWithTimeout env c (user_tweets_request env q) (sleep env 1500 s1)")
  note l2 = fetchWithTimeout_log(1)[OF f2]
  have "snd (verifyTweetByFetching env c text s) = s \<or>
        snd (verifyTweetByFetching env c text s) = s1 \<or>
        snd (verifyTweetByFetching env c text s) = s2"
    by (simp add: verifyTweetByFetching_def Let_def q f1 f2
        split: sum.splits json_value.splits option.splits)
  then show "legacy_writes (net_log (snd (verifyTweetByFetching env c text s))) =
      legacy_writes (net_log s)"
    and "create_tweet_requests (net_log (snd (verifyTweetByFetching env c text s))) =
     create_tweet_requests (net_log s)"
    using l1 l2 by (auto simp: legacy_writes_def create_tweet_requests_def)
qed

lemma postStatusUpdate_log_snd:
  "net_log (snd (postStatusUpdate env c input s)) =
     net_log s @ [with_timeout c (status_update_request env input)]"
  using postStatusUpdate_log[of env c input s] by (cases "postStatusUpdate env c input s") simp

lemma has_code_226_has_errors: "has_code_226 (errors_of data) \<Longrightarrow> has_errors data"
  by (auto simp: has_code_226_def errors_of_def has_errors_def split: option.splits)

lemma tryStatusUpdateFallback_log:
  "net_log (snd (tryStatusUpdateFallback env c errors variables s)) =
     net_log s @
     (if has_code_226 errors \<and> tweet_text variables \<noteq> []
      then [with_timeout c (status_update_request env
              (the (statusUpdateInputFromCreateTweetVariables variables)))]
      else [])"
proof (cases "has_code_226 errors \<and> tweet_text variables \<noteq> []")
  case True
  then obtain input where i: "statusUpdateInputFromCreateTweetVariables variables = Some input"
    by (simp add: statusUpdateInputFromCreateTweetVariables_def)
  obtain r s1 where p: "postStatusUpdate env c input s = (r, s1)"
    by (cases "postStatusUpdate env c input s")
  from postStatusUpdate_log[OF p] True i p show ?thesis
    by (cases r) (simp_all add: tryStatusUpdateFallback_def)
next
  case False
  then show ?thesis
    by (auto simp: tryStatusUpdateFallback_def statusUpdateInputFromCreateTweetVariables_def)
qed


lemma handle_create_response_legacy_log:
  "legacy_writes (net_log (snd (handle_create_response env c variables response s))) =
     legacy_writes (net_log s) @
     (if resp_ok response \<and>
         (\<exists>data. resp_json response = Inr (JsonObject data) \<and> has_code_226 (errors_of data)) \<and>
         tweet_text variables \<noteq> []
      then [with_timeout c (status_update_request env
              (the (statusUpdateInputFromCreateTweetVariables variables)))]
      else [])"
proof -
  have v: "legacy_writes (net_log (snd (verifyTweetByFetching env c t s))) =
     legacy_writes (net_log s)" for t
    by (rule verifyTweetByFetching_log)
  have f: "legacy_writes (net_log (snd (tryStatusUpdateFallback env c es variables s))) =
     legacy_writes (net_log s) @
     (if has_code_226 es \<and> tweet_text variables \<noteq> []
      then [with_timeout c (status_update_request env
              (the (statusUpdateInputFromCreateTweetVariables variables)))]
      else [])" for es
    by (simp add: tryStatusUpdateFallback_log legacy_writes_def)
  show ?thesis
    unfolding handle_create_response_def
    using v[of "tweet_text variables"] f has_code_226_has_errors
    by (auto simp: split_beta split: sum.splits json_value.splits option.splits prod.splits)
qed



lemma create_tweet_requests_append [simp]:
  "create_tweet_requests (xs @ ys) = create_tweet_requests xs @ create_tweet_requests ys"
  by (simp add: create_tweet_requests_def)

lemma create_tweet_requests_create [simp]:
  "create_tweet_requests (with_timeout c (create_tweet_request url variables q) # reqs) =
     with_timeout c (create_tweet_request url variables q) # create_tweet_requests reqs"
  "create_tweet_requests [] = []"
  by (simp_all add: create_tweet_requests_def)

lemma handle_create_response_not_ok:
  assumes "\<not> resp_ok response"
  shows "handle_create_response env c variables response s =
     (TweetFailed (case resp_text response of
                     Inl error \<Rightarrow> error_text error
                   | Inr text \<Rightarrow> http_error (resp_status response) text), s)"
  using assms by (simp add: handle_create_response_def split: sum.splits)

lemma scripted_settled_first:
  assumes "resp_status response \<noteq> 404"
  shows "settled_response scripted_env test_client variables (state_of (Inr response # rest) reqs) =
     (Inr response,
      state_of rest (reqs @ [create_tweet_request
        ''https://x.com/i/api/graphql/default-id/CreateTweet'' variables ''default-id'']))"
  using assms
  by (simp add: settled_response_def resolve_eq scripted_fetch_step Let_def
      scripted_urls[unfolded operation_url_def] operation_url_def)
     (simp add: scripted_env_def state_of_def)

lemma scripted_settled_second:
  assumes "resp_status response \<noteq> 404"
  shows "settled_response scripted_env test_client variables
           (state_of (Inr not_found # Inr response # rest) reqs) =
     (Inr response,
      state_of rest (reqs @
        [create_tweet_request
           ''https://x.com/i/api/graphql/default-id/CreateTweet'' variables ''default-id'',
         create_tweet_request
           ''https://x.com/i/api/graphql/default-id/CreateTweet'' variables ''default-id'']))"
proof -
  have r: "resolve scripted_env ''CreateTweet'' (state_of w rs) = (''default-id'', state_of w rs)"
    for w rs
    by (simp add: resolve_eq scripted_env_def state_of_def)
  have u: "operation_url scripted_env ''default-id'' ''CreateTweet'' =
      ''https://x.com/i/api/graphql/default-id/CreateTweet''"
    by (rule scripted_urls)
  have nf: "resp_status not_found = 404" by (simp add: not_found_def)
  show ?thesis
    using assms
    by (simp add: settled_response_def r u nf scripted_fetch_step scripted_refresh Let_def)
qed


subsection \<open>The body \<open>null\<close>\<close>

lemma like_null_body:
  "like scripted_env test_client ''1234567890'' (state_of [Inr ok_null] []) =
     (Inl (null_property_error ''errors''), state_of [] [like_request])"
  by (simp add: eval_client state_of_def like_request_def engagement_request_def)

lemma createTweet_null_body:
  "createTweet scripted_env test_client hello (state_of [Inr ok_null] []) =
     (TweetFailed (error_text (null_property_error ''errors'')), test_client,
      state_of [] [hello_request])"
  by (simp add: eval_client state_of_def hello_request_def create_tweet_request_def)

section \<open>What the specification states about the client\<close>




text \<open>
  C6 (as stated, it fails). A create-tweet response with an error of code 226 does not
  always lead to the legacy write: \<open>tryStatusUpdateFallback\<close> gives up when the variables
  hold no text. Here a tweet with media and an empty text meets such a response: the one
  request made is the create-tweet request, the legacy endpoint is never called although
  a response is ready for it, and the result is the failure with the original errors.
\<close>

theorem createTweet_fallback_counterexample:
  "has_code_226 (errors_of errors_226) \<and>
   createTweet scripted_env test_client media_only
     (state_of [Inr (ok_json errors_226), Inr (ok_json legacy_created)] []) =
   (TweetFailed ''This request looks like it might be automated. (226)'', test_client,
    state_of [Inr (ok_json legacy_created)]
      [create_tweet_request ''https://x.com/i/api/graphql/default-id/CreateTweet''
         media_only ''default-id''])"
proof -
  have "has_code_226 (errors_of errors_226)"
    by (simp add: has_code_226_def errors_of_def errors_226_def empty_body_def automated_error_def)
  then show ?thesis
    using tweet_226_media_only_run by (simp add: state_of_def start_def)
qed

text \<open>
  C6 (amended). Take the response that \<open>createTweet\<close> goes on from: the first response
  whose status is not 404, or the answer to the third attempt. If it is ok, its JSON body
  is an object whose error list holds an error with code 226, and the tweet text is not
  empty, then the legacy form-encoded write is made exactly once; when it succeeds the
  result is success with its tweet id, and when it fails the result is a failure whose
  error is the formatted original errors, then \<open> | fallback: \<close>, then the error of the
  legacy write. If the response is ok and its body has errors, but none with code 226 or
  the tweet text is empty, the result is the failure with the formatted original errors,
  and no request follows. If the response is not ok, its body is not read: the result is
  the HTTP failure (or the error of reading the text), and no request follows. In every
  case but the first, no legacy write is made during the call.
\<close>

theorem createTweet_fallback_on_226:
  assumes e: "ensureClientUserId env c0 s0 = (c, sa)"
    and settled: "settled_response env c variables sa = (Inr response, s)"
  shows "(\<forall>data. resp_ok response \<and> resp_json response = Inr (JsonObject data) \<and>
            has_code_226 (errors_of data) \<and> tweet_text variables \<noteq> [] \<longrightarrow>
            (\<exists>input r s1.
               statusUpdateInputFromCreateTweetVariables variables = Some input \<and>
               postStatusUpdate env c input s = (r, s1) \<and>
               createTweet env c0 variables s0 =
                 ((case r of
                     TweetOk tweetId \<Rightarrow> TweetOk tweetId
                   | TweetFailed error \<Rightarrow>
                       TweetFailed (formatErrors (errors_of data) @ '' | fallback: '' @ error)),
                  c, s1) \<and>
               legacy_writes (net_log s1) =
                 legacy_writes (net_log sa) @ [with_timeout c (status_update_request env input)])) \<and>
         (\<forall>data. resp_ok response \<and> resp_json response = Inr (JsonObject data) \<and>
            has_errors data \<and> (\<not> has_code_226 (errors_of data) \<or> tweet_text variables = []) \<longrightarrow>
            createTweet env c0 variables s0 =
              (TweetFailed (formatErrors (errors_of data)), c, s)) \<and>
         (\<not> resp_ok response \<longrightarrow>
            createTweet env c0 variables s0 =
              (TweetFailed (case resp_text response of
                              Inl error \<Rightarrow> error_text error
                            | Inr text \<Rightarrow> http_error (resp_status response) text), c, s)) \<and>
         (\<not> (resp_ok response \<and>
             (\<exists>data. resp_json response = Inr (JsonObject data) \<and> has_code_226 (errors_of data)) \<and>
             tweet_text variables \<noteq> []) \<longrightarrow>
            legacy_writes (net_log (snd (snd (createTweet env c0 variables s0)))) =
              legacy_writes (net_log sa))"
proof -
  have ct: "createTweet env c0 variables s0 =
      (fst (handle_create_response env c variables response s), c,
       snd (handle_create_response env c variables response s))"
    unfolding createTweet_settled[OF e] settled by simp
  have ls: "legacy_writes (net_log s) = legacy_writes (net_log sa)"
    using settled by (rule settled_response_kinds)
  have a: "\<exists>input r s1.
               statusUpdateInputFromCreateTweetVariables variables = Some input \<and>
               postStatusUpdate env c input s = (r, s1) \<and>
               createTweet env c0 variables s0 =
                 ((case r of
                     TweetOk tweetId \<Rightarrow> TweetOk tweetId
                   | TweetFailed error \<Rightarrow>
                       TweetFailed (formatErrors (errors_of data) @ '' | fallback: '' @ error)),
                  c, s1) \<and>
               legacy_writes (net_log s1) =
                 legacy_writes (net_log sa) @ [with_timeout c (status_update_request env input)]"
    if h: "resp_ok response \<and> resp_json response = Inr (JsonObject data) \<and>
            has_code_226 (errors_of data) \<and> tweet_text variables \<noteq> []" for data
  proof -
    from h have ok: "resp_ok response" and json: "resp_json response = Inr (JsonObject data)"
      and c226: "has_code_226 (errors_of data)" and t: "tweet_text variables \<noteq> []" by simp_all
    note handle = handle_create_response_errors
      [OF ok json has_code_226_has_errors[OF c226], of env c variables s]
    from t obtain input where
      input: "statusUpdateInputFromCreateTweetVariables variables = Some input"
      by (simp add: statusUpdateInputFromCreateTweetVariables_def)
    obtain r s1 where p: "postStatusUpdate env c input s = (r, s1)"
      by (cases "postStatusUpdate env c input s")
    have l: "legacy_writes (net_log s1) =
        legacy_writes (net_log sa) @ [with_timeout c (status_update_request env input)]"
      using postStatusUpdate_log[OF p] ls by (simp add: legacy_writes_def)
    have r: "createTweet env c0 variables s0 =
                 ((case r of
                     TweetOk tweetId \<Rightarrow> TweetOk tweetId
                   | TweetFailed error \<Rightarrow>
                       TweetFailed (formatErrors (errors_of data) @ '' | fallback: '' @ error)),
                  c, s1)"
      unfolding ct handle using c226 t input p by (cases r) simp_all
    from input p r l show ?thesis by blast
  qed
  have b: "createTweet env c0 variables s0 = (TweetFailed (formatErrors (errors_of data)), c, s)"
    if h: "resp_ok response \<and> resp_json response = Inr (JsonObject data) \<and>
            has_errors data \<and> (\<not> has_code_226 (errors_of data) \<or> tweet_text variables = [])"
    for data
  proof -
    from h have ok: "resp_ok response" and json: "resp_json response = Inr (JsonObject data)"
      and he: "has_errors data"
      and n: "\<not> has_code_226 (errors_of data) \<or> tweet_text variables = []" by simp_all
    show ?thesis
      unfolding ct handle_create_response_errors[OF ok json he] using n by auto
  qed
  have c: "createTweet env c0 variables s0 =
              (TweetFailed (case resp_text response of
                              Inl error \<Rightarrow> error_text error
                            | Inr text \<Rightarrow> http_error (resp_status response) text), c, s)"
    if "\<not> resp_ok response"
    unfolding ct handle_create_response_not_ok[OF that] by simp
  have d: "legacy_writes (net_log (snd (snd (createTweet env c0 variables s0)))) =
              legacy_writes (net_log sa)"
    if "\<not> (resp_ok response \<and>
             (\<exists>data. resp_json response = Inr (JsonObject data) \<and> has_code_226 (errors_of data)) \<and>
             tweet_text variables \<noteq> [])"
    unfolding ct using that ls by (simp add: handle_create_response_legacy_log)
  from a b c d show ?thesis by blast
qed

theorem createTweet_fallback_on_226_witness:
  "settled_response scripted_env test_client hello
      (state_of [Inr (ok_json errors_226), Inr (ok_json legacy_created)] []) =
     (Inr (ok_json errors_226), state_of [Inr (ok_json legacy_created)] [hello_request]) \<and>
   createTweet scripted_env test_client hello
      (state_of [Inr (ok_json errors_226), Inr (ok_json legacy_created)] []) =
     (TweetOk ''999'', test_client,
      state_of [] [hello_request, status_update_request scripted_env hello_input]) \<and>
   settled_response scripted_env test_client hello
      (state_of [Inr not_found, Inr (ok_json errors_226), Inr not_found] []) =
     (Inr (ok_json errors_226), state_of [Inr not_found] [hello_request, hello_request]) \<and>
   createTweet scripted_env test_client hello
      (state_of [Inr not_found, Inr (ok_json errors_226), Inr not_found] []) =
     (TweetFailed
        ''This request looks like it might be automated. (226) | fallback: HTTP 404: Not found'',
      test_client,
      state_of [] [hello_request, hello_request,
                   status_update_request scripted_env hello_input]) \<and>
   settled_response scripted_env test_client hello
      (state_of [Inr forbidden_226, Inr (ok_json legacy_created)] []) =
     (Inr forbidden_226, state_of [Inr (ok_json legacy_created)] [hello_request]) \<and>
   resp_json forbidden_226 = Inr (JsonObject errors_226) \<and>
   createTweet scripted_env test_client hello
      (state_of [Inr forbidden_226, Inr (ok_json legacy_created)] []) =
     (TweetFailed ''HTTP 403: Forbidden'', test_client,
      state_of [Inr (ok_json legacy_created)] [hello_request]) \<and>
   createTweet scripted_env test_client hello
      (state_of [Inr (ok_json errors_88), Inr (ok_json legacy_created)] []) =
     (TweetFailed ''Rate limit exceeded (88)'', test_client,
      state_of [Inr (ok_json legacy_created)] [hello_request])"
proof -
  let ?legacy = "status_update_request scripted_env hello_input"
  have st: "resp_status (ok_json data) \<noteq> 404" "resp_ok (ok_json data)"
    "resp_json (ok_json data) = Inr (JsonObject data)" for data :: "unit json_body"
    by (simp_all add: ok_json_def)
  have e226: "has_code_226 (errors_of errors_226)" "has_errors errors_226"
    "formatErrors (errors_of errors_226) =
       ''This request looks like it might be automated. (226)''"
    by (simp_all add: has_code_226_def errors_of_def errors_226_def empty_body_def
        automated_error_def has_errors_def formatErrors_def format_error_def)
  have e88: "\<not> has_code_226 (errors_of errors_88)" "has_errors errors_88"
    "formatErrors (errors_of errors_88) = ''Rate limit exceeded (88)''"
    by (simp_all add: has_code_226_def errors_of_def errors_88_def empty_body_def
        rate_limit_error_def has_errors_def formatErrors_def format_error_def)
  have t: "tweet_text hello \<noteq> []" by (simp add: hello_def)
  have input: "statusUpdateInputFromCreateTweetVariables hello = Some hello_input"
    by (simp add: statusUpdateInputFromCreateTweetVariables_def hello_def hello_input_def)
  have hr: "create_tweet_request
      ''https://x.com/i/api/graphql/default-id/CreateTweet'' hello ''default-id'' = hello_request"
    by (simp add: hello_request_def)

  let ?a0 = "state_of [Inr (ok_json errors_226), Inr (ok_json legacy_created)] []"
  let ?a1 = "state_of [Inr (ok_json legacy_created)] [hello_request]"
  let ?a2 = "state_of [] [hello_request, ?legacy]"
  have sa: "settled_response scripted_env test_client hello ?a0 = (Inr (ok_json errors_226), ?a1)"
    using scripted_settled_first[OF st(1), of hello errors_226 "[Inr (ok_json legacy_created)]" "[]"] by (simp add: hr)
  have pa: "postStatusUpdate scripted_env test_client hello_input ?a1 = (TweetOk ''999'', ?a2)"
    by (simp add: postStatusUpdate_def scripted_fetch_step ok_json_def legacy_created_def
        empty_body_def has_errors_def falsy_def)
  from createTweet_fallback_on_226[OF scripted_ensure sa, THEN conjunct1, rule_format,
      of errors_226] st e226 t
  obtain input r s1 where
    "statusUpdateInputFromCreateTweetVariables hello = Some input"
    "postStatusUpdate scripted_env test_client input ?a1 = (r, s1)"
    "createTweet scripted_env test_client hello ?a0 =
       ((case r of
           TweetOk tweetId \<Rightarrow> TweetOk tweetId
         | TweetFailed error \<Rightarrow>
             TweetFailed (formatErrors (errors_of errors_226) @ '' | fallback: '' @ error)),
        test_client, s1)"
    by blast
  with input pa have a: "createTweet scripted_env test_client hello ?a0 =
      (TweetOk ''999'', test_client, ?a2)" by auto

  let ?b0 = "state_of [Inr not_found, Inr (ok_json errors_226), Inr not_found] []"
  let ?b1 = "state_of [Inr not_found] [hello_request, hello_request]"
  let ?b2 = "state_of [] [hello_request, hello_request, ?legacy]"
  have sb: "settled_response scripted_env test_client hello ?b0 = (Inr (ok_json errors_226), ?b1)"
    using scripted_settled_second[OF st(1), of hello errors_226 "[Inr not_found]" "[]"] by (simp add: hr)
  have h404: "http_error 404 ''Not found'' = ''HTTP 404: Not found''"
    by (simp add: http_error_def show_nat.simps digit_char_def)
  have pb: "postStatusUpdate scripted_env test_client hello_input ?b1 =
      (TweetFailed ''HTTP 404: Not found'', ?b2)"
    by (simp add: postStatusUpdate_def scripted_fetch_step not_found_def h404)
  from createTweet_fallback_on_226[OF scripted_ensure sb, THEN conjunct1, rule_format,
      of errors_226] st e226 t
  obtain input r s1 where
    "statusUpdateInputFromCreateTweetVariables hello = Some input"
    "postStatusUpdate scripted_env test_client input ?b1 = (r, s1)"
    "createTweet scripted_env test_client hello ?b0 =
       ((case r of
           TweetOk tweetId \<Rightarrow> TweetOk tweetId
         | TweetFailed error \<Rightarrow>
             TweetFailed (formatErrors (errors_of errors_226) @ '' | fallback: '' @ error)),
        test_client, s1)"
    by blast
  with input pb e226(3) have b: "createTweet scripted_env test_client hello ?b0 =
     (TweetFailed
        ''This request looks like it might be automated. (226) | fallback: HTTP 404: Not found'',
      test_client, ?b2)" by auto

  let ?c0 = "state_of [Inr forbidden_226, Inr (ok_json legacy_created)] []"
  have f: "resp_status forbidden_226 \<noteq> 404" "\<not> resp_ok forbidden_226"
    "resp_json forbidden_226 = Inr (JsonObject errors_226)"
    "resp_text forbidden_226 = Inr ''Forbidden''" "resp_status forbidden_226 = 403"
    by (simp_all add: forbidden_226_def)
  have sc: "settled_response scripted_env test_client hello ?c0 = (Inr forbidden_226, ?a1)"
    using scripted_settled_first[OF f(1), of hello "[Inr (ok_json legacy_created)]" "[]"] by (simp add: hr)
  have h403: "http_error 403 ''Forbidden'' = ''HTTP 403: Forbidden''"
    by (simp add: http_error_def show_nat.simps digit_char_def)
  have c: "createTweet scripted_env test_client hello ?c0 =
      (TweetFailed ''HTTP 403: Forbidden'', test_client, ?a1)"
    using createTweet_fallback_on_226[OF scripted_ensure sc, THEN conjunct2, THEN conjunct2,
        THEN conjunct1] f h403
    by simp

  let ?d0 = "state_of [Inr (ok_json errors_88), Inr (ok_json legacy_created)] []"
  have sd: "settled_response scripted_env test_client hello ?d0 = (Inr (ok_json errors_88), ?a1)"
    using scripted_settled_first[OF st(1), of hello errors_88 "[Inr (ok_json legacy_created)]" "[]"] by (simp add: hr)
  have d: "createTweet scripted_env test_client hello ?d0 =
      (TweetFailed ''Rate limit exceeded (88)'', test_client, ?a1)"
    using createTweet_fallback_on_226[OF scripted_ensure sd, THEN conjunct2, THEN conjunct1,
        rule_format, of errors_88] st e88
    by simp
  show ?thesis using sa a sb b sc f(3) c d by (intro conjI)
qed

text \<open>
  C7. For an operation that has no entry in the live cache of query ids, \<open>getQueryId\<close>
  returns the default of the static table \<open>QUERY_IDS\<close> and leaves the cache as it is; so
  any number of calls in a row give that same default, and the cache is unchanged after
  them. (The lookup in the live cache is modelled from the specification.)
\<close>

theorem getQueryId_default_idempotent:
  assumes "cache operationName = None"
  shows "getQueryId table operationName cache = (table operationName, cache) \<and>
         getQueryId_times n table operationName cache = (replicate n (table operationName), cache)"
proof -
  have one: "getQueryId table operationName cache = (table operationName, cache)"
    using assms by (simp add: getQueryId_def runtime_getQueryId_def)
  have "getQueryId_times n table operationName cache = (replicate n (table operationName), cache)"
    by (induction n) (simp_all add: one)
  with one show ?thesis by simp
qed

theorem getQueryId_default_idempotent_witness:
  "[''CreateTweet'' \<mapsto> ''live-id''] ''FavoriteTweet'' = None \<and>
   getQueryId (\<lambda>operationName. ''default-id'') ''FavoriteTweet'' [''CreateTweet'' \<mapsto> ''live-id''] =
     (''default-id'', [''CreateTweet'' \<mapsto> ''live-id'']) \<and>
   getQueryId_times 3 (\<lambda>operationName. ''default-id'') ''FavoriteTweet'' [''CreateTweet'' \<mapsto> ''live-id''] =
     ([''default-id'', ''default-id'', ''default-id''], [''CreateTweet'' \<mapsto> ''live-id''])"
proof -
  have n: "[''CreateTweet'' \<mapsto> ''live-id''] ''FavoriteTweet'' = None" by simp
  from getQueryId_default_idempotent
    [of "[''CreateTweet'' \<mapsto> ''live-id'']" "''FavoriteTweet''" "\<lambda>operationName. ''default-id''" 3, OF n]
  show ?thesis using n by (simp add: numeral_3_eq_3)
qed

text \<open>
  C8 (the code breaks it). The engagement mutations hand the promise of \<open>parseResponse\<close>
  back without awaiting it, so its rejection is not caught. Here \<open>like\<close> gets a response
  with status 200 whose body is not JSON: \<open>response.json()\<close> rejects, and so does \<open>like\<close>,
  with that error, instead of returning a failure result.
\<close>

theorem like_rejects_on_unparsable_body:
  "like scripted_env test_client ''1234567890'' (state_of [Inr ok_not_json] []) =
     (Inl (Error ''Unexpected end of JSON input''), state_of [] [like_request])"
  using like_not_json by (simp add: state_of_def start_def like_request_def)

text \<open>
  C9 (on the model from the specification). For an article whose stored title is \<open>T\<close> and
  whose rich content starts with a top-level heading with text \<open>T\<close>: the lines of the
  text are the heading line \<open># T\<close> and one line for each further block. No line is put in
  for the title besides the heading, so there are as many lines as blocks. When the
  heading is the whole content, as in the test, the text is exactly \<open># T\<close>.
\<close>

theorem extractArticleText_title_heading:
  assumes "article_blocks a = b # rest"
    and "block_type b = ''header-one''"
    and "block_text b = article_title a"
  shows "article_lines render_other title_lines a =
           (''# '' @ article_title a) # map (render_block render_other) rest \<and>
         length (article_lines render_other title_lines a) = length (article_blocks a) \<and>
         (rest = [] \<longrightarrow>
            article_lines render_other title_lines a = [''# '' @ article_title a] \<and>
            extractArticleText render_other title_lines a = ''# '' @ article_title a)"
  using assms by (simp add: extractArticleText_def article_lines_def render_block_def)

theorem extractArticleText_title_heading_witness:
  "article_blocks hello_world_article =
     [\<lparr>block_type = ''header-one'', block_text = ''Hello World''\<rparr>] \<and>
   article_title hello_world_article = ''Hello World'' \<and>
   article_lines block_text (\<lambda>title. [title]) hello_world_article = [''# Hello World''] \<and>
   extractArticleText block_text (\<lambda>title. [title]) hello_world_article = ''# Hello World'' \<and>
   article_blocks two_block_article =
     [\<lparr>block_type = ''header-one'', block_text = ''Hello World''\<rparr>,
      \<lparr>block_type = ''unstyled'', block_text = ''Body''\<rparr>] \<and>
   article_title two_block_article = ''Hello World'' \<and>
   article_lines block_text (\<lambda>title. [title]) two_block_article = [''# Hello World'', ''Body'']"
proof -
  let ?b = "\<lparr>block_type = ''header-one'', block_text = ''Hello World''\<rparr>"
  let ?p = "\<lparr>block_type = ''unstyled'', block_text = ''Body''\<rparr>"
  have a: "article_blocks hello_world_article = ?b # []"
    and t: "article_title hello_world_article = ''Hello World''"
    by (simp_all add: hello_world_article_def)
  have a2: "article_blocks two_block_article = ?b # [?p]"
    and t2: "article_title two_block_article = ''Hello World''"
    by (simp_all add: two_block_article_def)
  have h: "block_type ?b = ''header-one''" "block_text ?b = article_title hello_world_article"
    "block_text ?b = article_title two_block_article"
    by (simp_all add: t t2)
  from extractArticleText_title_heading[OF a h(1,2), of block_text "\<lambda>title. [title]"]
  have x: "article_lines block_text (\<lambda>title. [title]) hello_world_article = [''# Hello World'']"
    "extractArticleText block_text (\<lambda>title. [title]) hello_world_article = ''# Hello World''"
    by (simp_all add: t)
  from extractArticleText_title_heading[OF a2 h(1,3), of block_text "\<lambda>title. [title]"]
  have y: "article_lines block_text (\<lambda>title. [title]) two_block_article =
      [''# Hello World'', ''Body'']"
    by (simp add: t2 render_block_def)
  show ?thesis using a t a2 t2 x y by simp
qed

text \<open>
  C10. Constructing a client from options in which \<open>authToken\<close> or \<open>ct0\<close> is missing or
  empty throws an \<open>Error\<close> with the message \<open>Both authToken and ct0 cookies are required\<close>.
  A client that has been constructed holds the two cookies of its options, both
  non-empty, and posting, the one operation here that hands a changed client on, leaves
  both as they are.
\<close>

theorem new_client_requires_cookies:
  "(falsy (cookie_authToken (opt_cookies options)) \<or> falsy (cookie_ct0 (opt_cookies options)) \<longrightarrow>
      new_client normalizeQuoteDepth uuid1 uuid2 options =
        Inl (Error ''Both authToken and ct0 cookies are required'')) \<and>
   (\<forall>c. new_client normalizeQuoteDepth uuid1 uuid2 options = Inr c \<longrightarrow>
      authToken c \<noteq> [] \<and> ct0 c \<noteq> [] \<and>
      cookie_authToken (opt_cookies options) = Some (authToken c) \<and>
      cookie_ct0 (opt_cookies options) = Some (ct0 c) \<and>
      (\<forall>env variables s r c' s'. createTweet env c variables s = (r, c', s') \<longrightarrow>
         authToken c' = authToken c \<and> ct0 c' = ct0 c))"
proof (intro conjI allI impI)
  assume "falsy (cookie_authToken (opt_cookies options)) \<or> falsy (cookie_ct0 (opt_cookies options))"
  then show "new_client normalizeQuoteDepth uuid1 uuid2 options =
        Inl (Error ''Both authToken and ct0 cookies are required'')"
    by (simp add: new_client_def)
next
  fix c assume c: "new_client normalizeQuoteDepth uuid1 uuid2 options = Inr c"
  then have nf: "\<not> falsy (cookie_authToken (opt_cookies options))"
    "\<not> falsy (cookie_ct0 (opt_cookies options))"
    by (auto simp: new_client_def split: if_splits)
  from c nf show "authToken c \<noteq> []" "ct0 c \<noteq> []"
    "cookie_authToken (opt_cookies options) = Some (authToken c)"
    "cookie_ct0 (opt_cookies options) = Some (ct0 c)"
    by (auto simp: new_client_def Let_def falsy_def split: if_splits option.splits)
next
  fix c env variables s r c' s'
  assume "createTweet (env :: ('a, 'b) env) c variables s = (r, c', s')"
  then have c': "c' = fst (ensureClientUserId env c s)"
    using createTweet_client[of env c variables s] by simp
  obtain c1 s1 where e: "ensureClientUserId env c s = (c1, s1)"
    by (cases "ensureClientUserId env c s")
  from ensureClientUserId_cookies[OF e] c' e
  show "authToken c' = authToken c" "ct0 c' = ct0 c" by simp_all
qed

theorem new_client_requires_cookies_witness:
  "falsy (cookie_ct0 (opt_cookies options_without_ct0)) \<and>
   new_client (\<lambda>d. 1) ''uuid-1'' ''uuid-2'' options_without_ct0 =
     Inl (Error ''Both authToken and ct0 cookies are required'') \<and>
   new_client (\<lambda>d. 1) ''uuid-1'' ''uuid-2'' valid_options = Inr test_client \<and>
   authToken test_client = ''test_auth_token'' \<and> ct0 test_client = ''test_ct0_token'' \<and>
   authToken (fst (snd (createTweet scripted_env test_client
       \<lparr>tweet_text = ''Hello'', in_reply_to_tweet_id = None, media_ids = []\<rparr> (start [])))) =
     ''test_auth_token''"
proof -
  have f: "falsy (cookie_ct0 (opt_cookies options_without_ct0))"
    by (simp add: options_without_ct0_def falsy_def)
  let ?run = "createTweet scripted_env test_client
       \<lparr>tweet_text = ''Hello'', in_reply_to_tweet_id = None, media_ids = []\<rparr> (start [])"
  have r: "?run = (fst ?run, fst (snd ?run), snd (snd ?run))" by simp
  from new_client_requires_cookies[of options_without_ct0 "\<lambda>d. 1" "''uuid-1''" "''uuid-2''"] f
  have a: "new_client (\<lambda>d. 1) ''uuid-1'' ''uuid-2'' options_without_ct0 =
     Inl (Error ''Both authToken and ct0 cookies are required'')" by blast
  from new_client_requires_cookies[of valid_options "\<lambda>d. 1" "''uuid-1''" "''uuid-2''"]
    new_client_valid r
  have b: "authToken (fst (snd ?run)) = authToken test_client" by blast
  show ?thesis using f a b new_client_valid by (simp add: test_client_def)
qed

end
